theory Spec2Isabelle
  imports Main "HOL-Library.Word" "HOL-Library.Multiset"
begin

unbundle bit_operations_syntax

text \<open>
  A model of pki.go of go-easyrsa: the pair of a key and a certificate, the creation of
  an authority (\<open>NewCa\<close>), the issuing of client and server certificates (\<open>NewCert\<close>,
  \<open>ExtractGroups\<close>) and revocation (\<open>GetCRL\<close>, \<open>RevokeOne\<close>, \<open>IsRevoked\<close>,
  \<open>removeDups\<close>). A function that changes the storage, the serial provider or the CRL
  holder takes the \<open>PKI\<close> and returns it changed, next to its result.
\<close>

section \<open>Errors and panics\<close>

text \<open>
  pki.go builds its errors with \<^verbatim>\<open>errors.New(msg)\<close> and \<^verbatim>\<open>errors.Wrap(err, msg)\<close>
  (github.com/pkg/errors). Errors that come from outside pki.go (a collaborator behind one
  of the three interfaces, or the Go standard library) are \<open>NotFound\<close>, the one error
  the collaborator contracts name, or \<open>Fault msg\<close> for any other failure.
\<close>

datatype error = NotFound | Fault string | New string | Wrap error string

text \<open>A run-time panic of the Go program: an index expression out of range.\<close>

datatype panic = IndexOutOfRange nat nat

section \<open>Values of the Go standard library\<close>

text \<open>
  \<^verbatim>\<open>*big.Int\<close> is an unbounded integer (\<open>int\<close>); nil pointers are not modelled.
  \<^verbatim>\<open>time.Time\<close> is an instant counted in nanoseconds, \<^verbatim>\<open>time.Duration\<close> a number of
  nanoseconds. \<^verbatim>\<open>UTC()\<close> changes the location of a time and not its instant.
\<close>

type_synonym byte = "8 word"
type_synonym Time = int
type_synonym Duration = int

definition Nanosecond :: Duration where "Nanosecond = 1"
definition Second :: Duration where "Second = 1000000000 * Nanosecond"
definition Minute :: Duration where "Minute = 60 * Second"
definition Hour :: Duration where "Hour = 60 * Minute"

definition Add :: "Time \<Rightarrow> Duration \<Rightarrow> Time" where
  "Add t d = t + d"

definition UTC :: "Time \<Rightarrow> Time" where
  "UTC t = t"

text \<open>
  \<^verbatim>\<open>(*big.Int).Int64()\<close>: the low 64 bits of the absolute value, read as an int64 and
  negated (with wrap-around) when the number is negative.
\<close>

definition Int64 :: "int \<Rightarrow> 64 word" where
  "Int64 x = (let v = (word_of_int \<bar>x\<bar> :: 64 word) in if x < 0 then - v else v)"

text \<open>\<^verbatim>\<open>(*big.Int).Cmp\<close>: -1, 0 or +1.\<close>

definition Cmp :: "int \<Rightarrow> int \<Rightarrow> int" where
  "Cmp x y = (if x < y then - 1 else if x = y then 0 else 1)"

datatype PublicKey = RSAPublicKey int
datatype PrivateKey = RSAPrivateKey int

fun PublicKey_of :: "PrivateKey \<Rightarrow> PublicKey" where
  "PublicKey_of (RSAPrivateKey n) = RSAPublicKey n"

record Name =
  Country :: "string list"
  Organization :: "string list"
  OrganizationalUnit :: "string list"
  CommonName :: string

record Extension =
  Id_oid :: "int list"
  Critical :: bool
  Value :: "byte list"

datatype ExtKeyUsage =
    ExtKeyUsageAny | ExtKeyUsageServerAuth | ExtKeyUsageClientAuth | ExtKeyUsageCodeSigning
  | ExtKeyUsageEmailProtection | ExtKeyUsageIPSECEndSystem | ExtKeyUsageIPSECTunnel
  | ExtKeyUsageIPSECUser | ExtKeyUsageTimeStamping | ExtKeyUsageOCSPSigning

text \<open>\<^verbatim>\<open>x509.KeyUsage\<close> is a bit mask; the constants are \<^verbatim>\<open>1 << iota\<close>.\<close>

type_synonym KeyUsage = int

definition KeyUsageDigitalSignature :: KeyUsage where "KeyUsageDigitalSignature = push_bit 0 1"
definition KeyUsageContentCommitment :: KeyUsage where "KeyUsageContentCommitment = push_bit 1 1"
definition KeyUsageKeyEncipherment :: KeyUsage where "KeyUsageKeyEncipherment = push_bit 2 1"
definition KeyUsageDataEncipherment :: KeyUsage where "KeyUsageDataEncipherment = push_bit 3 1"
definition KeyUsageKeyAgreement :: KeyUsage where "KeyUsageKeyAgreement = push_bit 4 1"
definition KeyUsageCertSign :: KeyUsage where "KeyUsageCertSign = push_bit 5 1"
definition KeyUsageCRLSign :: KeyUsage where "KeyUsageCRLSign = push_bit 6 1"
definition KeyUsageEncipherOnly :: KeyUsage where "KeyUsageEncipherOnly = push_bit 7 1"
definition KeyUsageDecipherOnly :: KeyUsage where "KeyUsageDecipherOnly = push_bit 8 1"

text \<open>The usages a mask grants: the constants whose bit is set, in the order of their bits.\<close>

definition usages_of :: "KeyUsage \<Rightarrow> KeyUsage list" where
  "usages_of ku =
     filter (\<lambda>usage. ku AND usage \<noteq> 0)
       [KeyUsageDigitalSignature, KeyUsageContentCommitment, KeyUsageKeyEncipherment,
        KeyUsageDataEncipherment, KeyUsageKeyAgreement, KeyUsageCertSign, KeyUsageCRLSign,
        KeyUsageEncipherOnly, KeyUsageDecipherOnly]"

text \<open>
  The fields of \<^verbatim>\<open>x509.Certificate\<close> that pki.go sets or reads. A field a struct literal
  leaves out has Go's zero value.
\<close>

record Certificate =
  SerialNumber :: int
  Issuer :: Name
  Subject :: Name
  NotBefore :: Time
  NotAfter :: Time
  KeyUsage :: KeyUsage
  ExtKeyUsage :: "ExtKeyUsage list"
  BasicConstraintsValid :: bool
  IsCA :: bool
  DNSNames :: "string list"
  IPAddresses :: "byte list list"
  ExcludedDNSDomains :: "string list"
  ExtraExtensions :: "Extension list"

record RevokedCertificate =
  RevokedSerialNumber :: int
  RevocationTime :: Time

record TBSCertificateList =
  CRLIssuer :: Name
  ThisUpdate :: Time
  NextUpdate :: Time
  RevokedCertificates :: "RevokedCertificate list"

record CertificateList =
  TBSCertList :: TBSCertificateList

text \<open>The empty \<^verbatim>\<open>pkix.CertificateList{}\<close>: every field zero.\<close>

definition zero_Name :: Name where
  "zero_Name = \<lparr>Country = [], Organization = [], OrganizationalUnit = [], CommonName = []\<rparr>"

definition zero_CertificateList :: CertificateList where
  "zero_CertificateList =
     \<lparr>TBSCertList = \<lparr>CRLIssuer = zero_Name, ThisUpdate = 0, NextUpdate = 0,
        RevokedCertificates = []\<rparr>\<rparr>"

subsection \<open>Encodings\<close>

text \<open>
  DER and PEM are outside pki.go. They are modelled symbolically: an encoding is a
  constructor applied to what was encoded, and decoding inverts it, so that what is parsed
  back carries the fields of what was signed. A signed object records the parent
  certificate and the private key it was signed with. Bytes that are no encoding at all are
  \<open>NotDER\<close> and \<open>NotPEM\<close>. A certificate that is parsed back has its times in whole
  seconds, as DER keeps them, and is refused when a name constraint in it is no domain
  name; the entries of a CRL are parsed back as they were signed.
\<close>

datatype der_bytes =
    DERPrivateKey PrivateKey
  | DERCertificate Certificate Certificate PublicKey PrivateKey
  | DERCertificateList CertificateList Certificate PrivateKey
  | NotDER

record Block =
  Type :: string
  Bytes :: der_bytes

datatype pem_bytes = PEM Block | NotPEM

definition pem_EncodeToMemory :: "Block \<Rightarrow> pem_bytes" where
  "pem_EncodeToMemory b = PEM b"

fun pem_Decode :: "pem_bytes \<Rightarrow> Block option" where
  "pem_Decode (PEM b) = Some b"
| "pem_Decode NotPEM = None"

definition x509_MarshalPKCS1PrivateKey :: "PrivateKey \<Rightarrow> der_bytes" where
  "x509_MarshalPKCS1PrivateKey key = DERPrivateKey key"

fun x509_ParsePKCS1PrivateKey :: "der_bytes \<Rightarrow> error + PrivateKey" where
  "x509_ParsePKCS1PrivateKey (DERPrivateKey k) = Inr k"
| "x509_ParsePKCS1PrivateKey _ = Inl (Fault ''x509: failed to parse private key'')"

text \<open>
  \<^verbatim>\<open>x509.ParseCertificate\<close> checks each dNSName of the name constraints extension, in
  order: it is an IA5 string (\<^verbatim>\<open>isIA5String\<close>: no character above 127) and, after one
  leading dot is dropped, a domain name (\<^verbatim>\<open>domainToReverseLabels\<close>: the labels between
  the dots, last first; an empty label or a character outside 33..126 is refused, the
  empty name is accepted).
\<close>

definition isIA5String :: "string \<Rightarrow> bool" where
  "isIA5String s = list_all (\<lambda>c. (of_char c :: int) \<le> 127) s"

fun labels :: "string \<Rightarrow> string list" where
  "labels [] = [[]]"
| "labels (c # cs) =
     (if c = CHR ''.'' then [] # labels cs
      else (case labels cs of [] \<Rightarrow> [[c]] | l # ls \<Rightarrow> (c # l) # ls))"

definition domainToReverseLabels :: "string \<Rightarrow> string list option" where
  "domainToReverseLabels domain =
     (let reverseLabels = (if domain = [] then [] else rev (labels domain)) in
      if (case reverseLabels of [] \<Rightarrow> False | label # _ \<Rightarrow> label = []) then None
      else if list_all
           (\<lambda>label. label \<noteq> [] \<and>
              list_all (\<lambda>c. 33 \<le> (of_char c :: int) \<and> (of_char c :: int) \<le> 126) label)
           reverseLabels
      then Some reverseLabels
      else None)"

definition dnsName_constraint :: "string \<Rightarrow> error option" where
  "dnsName_constraint domain =
     (if \<not> isIA5String domain then Some (Fault ''x509: invalid constraint value'')
      else
        (let trimmedDomain = (case domain of [] \<Rightarrow> [] | c # cs \<Rightarrow> if c = CHR ''.'' then cs else domain)
         in case domainToReverseLabels trimmedDomain of
              None \<Rightarrow> Some (Fault ''x509: failed to parse dnsName constraint'')
            | Some reverseLabels \<Rightarrow> None))"

fun parseNameConstraints :: "string list \<Rightarrow> error option" where
  "parseNameConstraints [] = None"
| "parseNameConstraints (domain # rest) =
     (case dnsName_constraint domain of
        Some err \<Rightarrow> Some err
      | None \<Rightarrow> parseNameConstraints rest)"

text \<open>The instant of a time with the part below a second dropped.\<close>

definition whole_seconds :: "Time \<Rightarrow> Time" where
  "whole_seconds t = t - t mod Second"

text \<open>
  A parsed certificate has the template's fields, its times in whole seconds, the
  parent's subject as issuer and no \<^verbatim>\<open>ExtraExtensions\<close>, a field that only a template
  uses.
\<close>

fun x509_ParseCertificate :: "der_bytes \<Rightarrow> error + Certificate" where
  "x509_ParseCertificate (DERCertificate template parent pub priv) =
     (case parseNameConstraints (ExcludedDNSDomains template) of
        Some err \<Rightarrow> Inl err
      | None \<Rightarrow>
          Inr (template
            \<lparr>Issuer := Subject parent,
             NotBefore := whole_seconds (NotBefore template),
             NotAfter := whole_seconds (NotAfter template),
             ExtraExtensions := []\<rparr>))"
| "x509_ParseCertificate _ = Inl (Fault ''x509: malformed certificate'')"

fun x509_ParseCRL :: "pem_bytes \<Rightarrow> error + CertificateList" where
  "x509_ParseCRL (PEM b) =
     (case Bytes b of
        DERCertificateList cl parent priv \<Rightarrow> Inr cl
      | _ \<Rightarrow> Inl (Fault ''x509: malformed crl''))"
| "x509_ParseCRL NotPEM = Inl (Fault ''x509: malformed crl'')"

text \<open>\<^verbatim>\<open>type X509Pair struct\<close> of pki.go.\<close>

record X509Pair =
  KeyPemBytes :: pem_bytes
  CertPemBytes :: pem_bytes
  CN :: string
  Serial :: int

text \<open>
  What one call takes from outside the program: the readings of \<^verbatim>\<open>time.Now()\<close> in the
  order the call makes them, the outcome of \<^verbatim>\<open>rsa.GenerateKey(rand.Reader, bits)\<close>,
  whether signing fails (as it does on a name that is no IA5 string), and the order in
  which Go's \<^verbatim>\<open>pdqsort_func\<close> leaves a slice of more than twelve pairs.
\<close>

record env =
  Now :: "nat \<Rightarrow> Time"
  rsa_GenerateKey :: "int \<Rightarrow> error + PrivateKey"
  CreateCertificate_error :: "error option"
  CreateCRL_error :: "error option"
  pdqsort_func :: "X509Pair list \<Rightarrow> X509Pair list"

definition x509_CreateCertificate ::
  "env \<Rightarrow> Certificate \<Rightarrow> Certificate \<Rightarrow> PublicKey \<Rightarrow> PrivateKey \<Rightarrow> error + der_bytes" where
  "x509_CreateCertificate e template parent pub priv =
     (case CreateCertificate_error e of
        Some err \<Rightarrow> Inl err
      | None \<Rightarrow> Inr (DERCertificate template parent pub priv))"

text \<open>
  \<^verbatim>\<open>(*x509.Certificate).CreateCRL(rand, priv, revokedCerts, now, expiry)\<close> keeps the
  entries in the order given.
\<close>

definition CreateCRL ::
  "env \<Rightarrow> Certificate \<Rightarrow> PrivateKey \<Rightarrow> RevokedCertificate list \<Rightarrow> Time \<Rightarrow> Time
     \<Rightarrow> error + der_bytes" where
  "CreateCRL e c priv revokedCerts now expiry =
     (case CreateCRL_error e of
        Some err \<Rightarrow> Inl err
      | None \<Rightarrow>
          Inr (DERCertificateList
            \<lparr>TBSCertList = \<lparr>CRLIssuer = Subject c, ThisUpdate = UTC now, NextUpdate = UTC expiry,
               RevokedCertificates = map (\<lambda>rc. rc\<lparr>RevocationTime := UTC (RevocationTime rc)\<rparr>)
                 revokedCerts\<rparr>\<rparr> c priv))"

text \<open>
  \<^verbatim>\<open>sort.Slice(s, less)\<close>. For slices of up to twelve elements Go runs
  \<^verbatim>\<open>insertionSortLessFunc\<close>: each element moves left while it is less than its left
  neighbour. \<open>insert_left\<close> takes the sorted prefix reversed. A longer slice is sorted by
  \<^verbatim>\<open>pdqsort_func\<close>, which is not modelled: its result is taken from outside (\<open>pdq\<close>) and
  is used when it is what a sort returns, a permutation of the slice in which no element
  is less than an earlier one. So the model leaves elements of which neither is less than
  the other in any order that Go may leave them in.
\<close>

fun insert_left :: "('a \<Rightarrow> 'a \<Rightarrow> bool) \<Rightarrow> 'a \<Rightarrow> 'a list \<Rightarrow> 'a list" where
  "insert_left lt x [] = [x]"
| "insert_left lt x (y # ys) = (if lt x y then y # insert_left lt x ys else x # y # ys)"

definition insertionSortLessFunc :: "('a \<Rightarrow> 'a \<Rightarrow> bool) \<Rightarrow> 'a list \<Rightarrow> 'a list" where
  "insertionSortLessFunc lt s = rev (foldl (\<lambda>prefix x. insert_left lt x prefix) [] s)"

definition sort_Slice ::
  "('a list \<Rightarrow> 'a list) \<Rightarrow> ('a \<Rightarrow> 'a \<Rightarrow> bool) \<Rightarrow> 'a list \<Rightarrow> 'a list" where
  "sort_Slice pdq lt s =
     (if length s \<le> 12 then insertionSortLessFunc lt s
      else if mset (pdq s) = mset s \<and> sorted_wrt (\<lambda>x y. \<not> lt y x) (pdq s) then pdq s
      else insertionSortLessFunc lt s)"

text \<open>
  \<^verbatim>\<open>asn1.Marshal\<close> of an \<^verbatim>\<open>asn1.BitString\<close>: the tag 3, the DER length of the contents,
  the number of padding bits and the bytes. It has no failing case.
\<close>

datatype BitString = BitString "byte list" nat

function lengthLength :: "nat \<Rightarrow> nat" where
  "lengthLength i = (if i > 255 then 1 + lengthLength (i div 256) else 1)"
  by pat_completeness auto
termination
  by (relation "measure (\<lambda>i. i)") auto

fun appendBase256 :: "nat \<Rightarrow> nat \<Rightarrow> byte list" where
  "appendBase256 0 i = []"
| "appendBase256 (Suc n) i = appendBase256 n (i div 256) @ [of_nat (i mod 256)]"

definition appendLength :: "nat \<Rightarrow> byte list" where
  "appendLength i =
     (if i \<ge> 128
      then (let l = lengthLength i in (128 OR of_nat l) # appendBase256 l i)
      else [of_nat i])"

fun asn1_Marshal :: "BitString \<Rightarrow> error + byte list" where
  "asn1_Marshal (BitString bytes bitLength) =
     Inr (3 # appendLength (length bytes + 1) @ of_nat ((8 - bitLength mod 8) mod 8) # bytes)"

section \<open>The collaborators\<close>

text \<open>
  Modelled from the spec: the \<^verbatim>\<open>KeyStorage\<close> interface and its implementation are not
  in pki.go. A storage holds the pairs in the order they were put; \<open>Put\<close> adds a pair,
  \<open>GetByCN\<close> returns all pairs ever stored for a name, \<open>GetLastByCn\<close> the one stored most
  recently (\<open>NotFound\<close> if none). A read or a write can fail with a storage error.
\<close>

record KeyStorage =
  pairs :: "X509Pair list"
  storage_read_error :: "error option"
  storage_write_error :: "error option"

definition KeyStorage_Put :: "X509Pair \<Rightarrow> KeyStorage \<Rightarrow> error option \<times> KeyStorage" where
  "KeyStorage_Put pair s =
     (case storage_write_error s of
        Some err \<Rightarrow> (Some err, s)
      | None \<Rightarrow> (None, s\<lparr>pairs := pairs s @ [pair]\<rparr>))"

definition KeyStorage_GetByCN :: "string \<Rightarrow> KeyStorage \<Rightarrow> error + X509Pair list" where
  "KeyStorage_GetByCN cn s =
     (case storage_read_error s of
        Some err \<Rightarrow> Inl err
      | None \<Rightarrow> Inr (filter (\<lambda>p. CN p = cn) (pairs s)))"

definition KeyStorage_GetLastByCn :: "string \<Rightarrow> KeyStorage \<Rightarrow> error + X509Pair" where
  "KeyStorage_GetLastByCn cn s =
     (case storage_read_error s of
        Some err \<Rightarrow> Inl err
      | None \<Rightarrow>
          (case rev (filter (\<lambda>p. CN p = cn) (pairs s)) of
             [] \<Rightarrow> Inl NotFound
           | p # _ \<Rightarrow> Inr p))"

text \<open>
  Modelled from the spec: the \<^verbatim>\<open>SerialProvider\<close> interface is not in pki.go. Each call
  of \<open>Next\<close> returns a fresh integer, larger than every one returned before, or fails.
\<close>

record SerialProvider =
  last_serial :: int
  serial_error :: "error option"

definition SerialProvider_Next :: "SerialProvider \<Rightarrow> (error + int) \<times> SerialProvider" where
  "SerialProvider_Next sp =
     (case serial_error sp of
        Some err \<Rightarrow> (Inl err, sp)
      | None \<Rightarrow> (Inr (last_serial sp + 1), sp\<lparr>last_serial := last_serial sp + 1\<rparr>))"

text \<open>
  Modelled from the spec: the \<^verbatim>\<open>CRLHolder\<close> interface is not in pki.go. The holder
  keeps at most one signed CRL blob. \<open>Get\<close> parses and returns it, \<open>NotFound\<close> if none
  has been written yet; \<open>Put\<close> replaces the blob, and leaves it as it was when it fails.
\<close>

record CRLHolder =
  blob :: "pem_bytes option"
  crl_read_error :: "error option"
  crl_write_error :: "error option"

definition CRLHolder_Get :: "CRLHolder \<Rightarrow> error + CertificateList" where
  "CRLHolder_Get h =
     (case crl_read_error h of
        Some err \<Rightarrow> Inl err
      | None \<Rightarrow> (case blob h of None \<Rightarrow> Inl NotFound | Some content \<Rightarrow> x509_ParseCRL content))"

definition CRLHolder_Put :: "pem_bytes \<Rightarrow> CRLHolder \<Rightarrow> error option \<times> CRLHolder" where
  "CRLHolder_Put content h =
     (case crl_write_error h of
        Some err \<Rightarrow> (Some err, h)
      | None \<Rightarrow> (None, h\<lparr>blob := Some content\<rparr>))"

section \<open>pki.go\<close>

text \<open>
  Constants of the package that are declared outside pki.go: the labels of the three PEM
  block types, the key size of an authority and its lifetime in years.
\<close>

record constants =
  PEMRSAPrivateKeyBlock :: string
  PEMCertificateBlock :: string
  PEMx509CRLBlock :: string
  DefaultKeySizeBytes :: int
  DefaultExpireYears :: int

text \<open>\<^verbatim>\<open>func (pair *X509Pair) Decode()\<close>\<close>

definition Decode :: "X509Pair \<Rightarrow> error + PrivateKey \<times> Certificate" where
  "Decode pair =
     (case pem_Decode (KeyPemBytes pair) of
        None \<Rightarrow> Inl (New ''can`t parse key'')
      | Some block \<Rightarrow>
     (case x509_ParsePKCS1PrivateKey (Bytes block) of
        Inl err \<Rightarrow> Inl (Wrap err ''can`t parse key'')
      | Inr key \<Rightarrow>
     (case pem_Decode (CertPemBytes pair) of
        None \<Rightarrow> Inl (New ''can`t parse cert'')
      | Some block \<Rightarrow>
     (case x509_ParseCertificate (Bytes block) of
        Inl err \<Rightarrow> Inl (Wrap err ''can`t parse cert'')
      | Inr cert \<Rightarrow> Inr (key, cert)))))"

definition NewX509Pair :: "pem_bytes \<Rightarrow> pem_bytes \<Rightarrow> string \<Rightarrow> int \<Rightarrow> X509Pair" where
  "NewX509Pair keyPemBytes certPemBytes cn serial =
     \<lparr>KeyPemBytes = keyPemBytes, CertPemBytes = certPemBytes, CN = cn, Serial = serial\<rparr>"

record PKI =
  Storage :: KeyStorage
  serialProvider :: SerialProvider
  crlHolder :: CRLHolder
  subjTemplate :: Name

definition NewPKI :: "KeyStorage \<Rightarrow> SerialProvider \<Rightarrow> CRLHolder \<Rightarrow> Name \<Rightarrow> PKI" where
  "NewPKI storage sp holder subj =
     \<lparr>Storage = storage, serialProvider = sp, crlHolder = holder, subjTemplate = subj\<rparr>"

text \<open>\<^verbatim>\<open>func (p *PKI) GetCRL()\<close> and \<^verbatim>\<open>func (p *PKI) GetLastCA()\<close>\<close>

definition GetCRL :: "PKI \<Rightarrow> error + CertificateList" where
  "GetCRL p = CRLHolder_Get (crlHolder p)"

definition GetLastCA :: "PKI \<Rightarrow> error + X509Pair" where
  "GetLastCA p = KeyStorage_GetLastByCn ''ca'' (Storage p)"

text \<open>
  \<^verbatim>\<open>func removeDups(list)\<close>. The map \<^verbatim>\<open>encountered\<close> is keyed by \<^verbatim>\<open>int64\<close>; a key
  that is absent reads as false. The loop carries the map and the result.
\<close>

definition encountered_at :: "(64 word \<rightharpoonup> bool) \<Rightarrow> 64 word \<Rightarrow> bool" where
  "encountered_at encountered k = (case encountered k of None \<Rightarrow> False | Some b \<Rightarrow> b)"

fun removeDups_loop ::
  "RevokedCertificate list \<Rightarrow> (64 word \<rightharpoonup> bool) \<Rightarrow> RevokedCertificate list
     \<Rightarrow> RevokedCertificate list" where
  "removeDups_loop [] encountered result = result"
| "removeDups_loop (cert # rest) encountered result =
     (if \<not> encountered_at encountered (Int64 (RevokedSerialNumber cert))
      then removeDups_loop rest
             (encountered(Int64 (RevokedSerialNumber cert) \<mapsto> True)) (result @ [cert])
      else removeDups_loop rest encountered result)"

definition removeDups :: "RevokedCertificate list \<Rightarrow> RevokedCertificate list" where
  "removeDups list = removeDups_loop list Map.empty []"

text \<open>
  \<^verbatim>\<open>func (p *PKI) RevokeOne(serial)\<close>. The result is a panic, or what the function
  returns: \<open>None\<close> for nil, \<open>Some err\<close> for an error. \<^verbatim>\<open>caPairs[0]\<close> panics on an empty
  slice.
\<close>

definition RevokeOne :: "constants \<Rightarrow> env \<Rightarrow> int \<Rightarrow> PKI \<Rightarrow> (panic + error option) \<times> PKI" where
  "RevokeOne c e serial p =
     (let list = (case GetCRL p of
                    Inr oldList \<Rightarrow> RevokedCertificates (TBSCertList oldList)
                  | Inl err \<Rightarrow> [])
      in
      case KeyStorage_GetByCN ''ca'' (Storage p) of
        Inl err \<Rightarrow> (Inr (Some (Wrap err ''can`t get ca certs for signing crl'')), p)
      | Inr stored \<Rightarrow>
     (let caPairs = sort_Slice (pdqsort_func e)
                      (\<lambda>pi pj. Cmp (Serial pi) (Serial pj) = 1) stored in
      case caPairs of
        [] \<Rightarrow> (Inl (IndexOutOfRange 0 0), p)
      | caPair # _ \<Rightarrow>
     (case Decode caPair of
        Inl err \<Rightarrow> (Inr (Some (Wrap err ''can`t decode ca certs for signing crl'')), p)
      | Inr (caKey, caCert) \<Rightarrow>
     (let list = list @ [\<lparr>RevokedSerialNumber = serial, RevocationTime = Now e 0\<rparr>] in
      case CreateCRL e caCert caKey (removeDups list) (Now e 1)
             (Add (Now e 2) (99 * 365 * 24 * Hour)) of
        Inl err \<Rightarrow> (Inr (Some (Wrap err ''can`t create crl'')), p)
      | Inr crlBytes \<Rightarrow>
     (let crlPem = pem_EncodeToMemory \<lparr>Type = PEMx509CRLBlock c, Bytes = crlBytes\<rparr> in
      case CRLHolder_Put crlPem (crlHolder p) of
        (Some err, holder) \<Rightarrow> (Inr (Some (Wrap err ''can`t put new crl'')), p\<lparr>crlHolder := holder\<rparr>)
      | (None, holder) \<Rightarrow> (Inr None, p\<lparr>crlHolder := holder\<rparr>))))))"

text \<open>\<^verbatim>\<open>func (p *PKI) IsRevoked(serial)\<close>: a linear scan with \<^verbatim>\<open>Cmp\<close>.\<close>

fun IsRevoked_loop :: "RevokedCertificate list \<Rightarrow> int \<Rightarrow> bool" where
  "IsRevoked_loop [] serial = False"
| "IsRevoked_loop (cert # rest) serial =
     (if Cmp (RevokedSerialNumber cert) serial = 0 then True else IsRevoked_loop rest serial)"

definition IsRevoked :: "int \<Rightarrow> PKI \<Rightarrow> bool" where
  "IsRevoked serial p =
     (let revokedCerts = (case GetCRL p of Inl err \<Rightarrow> zero_CertificateList | Inr cl \<Rightarrow> cl)
      in IsRevoked_loop (RevokedCertificates (TBSCertList revokedCerts)) serial)"

text \<open>
  \<^verbatim>\<open>func (p *PKI) NewCa()\<close>. \<open>NewCa_template\<close> is its struct literal
  \<^verbatim>\<open>template := x509.Certificate{...}\<close>.
\<close>

definition NewCa_template :: "constants \<Rightarrow> int \<Rightarrow> Name \<Rightarrow> Time \<Rightarrow> Certificate" where
  "NewCa_template c serial subj now =
     \<lparr>SerialNumber = serial,
      Issuer = zero_Name,
      Subject = subj,
      NotBefore = UTC (Add now (- 10 * Minute)),
      NotAfter = UTC (Add now ((24 * 365 * DefaultExpireYears c) * Hour)),
      KeyUsage = KeyUsageDigitalSignature OR KeyUsageCertSign OR KeyUsageCRLSign,
      ExtKeyUsage = [],
      BasicConstraintsValid = True,
      IsCA = True,
      DNSNames = [],
      IPAddresses = [],
      ExcludedDNSDomains = [],
      ExtraExtensions = []\<rparr>"

definition NewCa :: "constants \<Rightarrow> env \<Rightarrow> PKI \<Rightarrow> (error + X509Pair) \<times> PKI" where
  "NewCa c e p =
     (case rsa_GenerateKey e (DefaultKeySizeBytes c) of
        Inl err \<Rightarrow> (Inl (New ''can`t generate key''), p)
      | Inr key \<Rightarrow>
     (let subj = (subjTemplate p)\<lparr>CommonName := ''ca''\<rparr> in
      case SerialProvider_Next (serialProvider p) of
        (Inl err, sp) \<Rightarrow> (Inl err, p\<lparr>serialProvider := sp\<rparr>)
      | (Inr serial, sp) \<Rightarrow>
     (let p = p\<lparr>serialProvider := sp\<rparr>;
          now = Now e 0;
          template = NewCa_template c serial subj now
      in
      case x509_CreateCertificate e template template (PublicKey_of key) key of
        Inl err \<Rightarrow> (Inl (New ''can`t generate cert''), p)
      | Inr certificate \<Rightarrow>
     (let res = NewX509Pair
            (pem_EncodeToMemory
               \<lparr>Type = PEMRSAPrivateKeyBlock c, Bytes = x509_MarshalPKCS1PrivateKey key\<rparr>)
            (pem_EncodeToMemory \<lparr>Type = PEMCertificateBlock c, Bytes = certificate\<rparr>)
            ''ca'' serial
      in
      case KeyStorage_Put res (Storage p) of
        (Some err, storage) \<Rightarrow> (Inl err, p\<lparr>Storage := storage\<rparr>)
      | (None, storage) \<Rightarrow> (Inr res, p\<lparr>Storage := storage\<rparr>)))))"

text \<open>
  \<^verbatim>\<open>func (p *PKI) NewCert(cn, server, groups)\<close>. \<open>NewCert_tml\<close> is its struct literal
  \<^verbatim>\<open>tml := x509.Certificate{...}\<close>, and \<open>NewCert_server\<close> the block
  \<^verbatim>\<open>if server { ... }\<close>, which changes the template and can return early.
\<close>

definition NewCert_tml ::
  "Time \<Rightarrow> Name \<Rightarrow> int \<Rightarrow> string \<Rightarrow> string list \<Rightarrow> byte list \<Rightarrow> Certificate" where
  "NewCert_tml now subj serial cn groups val =
     \<lparr>SerialNumber = serial,
      Issuer = zero_Name,
      Subject = subj,
      NotBefore = UTC (Add now (- 10 * Minute)),
      NotAfter = UTC (Add now ((24 * 365 * 99) * Hour)),
      KeyUsage = KeyUsageDigitalSignature OR KeyUsageKeyAgreement,
      ExtKeyUsage = [ExtKeyUsageClientAuth],
      BasicConstraintsValid = True,
      IsCA = False,
      DNSNames = [cn],
      IPAddresses = [[127, 0, 0, 1]],
      ExcludedDNSDomains = groups,
      ExtraExtensions =
        [\<lparr>Id_oid = [2, 16, 840, 1, 113730, 1, 1], Critical = False, Value = val\<rparr>]\<rparr>"

definition NewCert_server :: "Certificate \<Rightarrow> error + Certificate" where
  "NewCert_server tml =
     (let tml = tml\<lparr>KeyUsage :=
                  KeyUsageDigitalSignature OR KeyUsageKeyAgreement OR KeyUsageKeyEncipherment\<rparr>;
          tml = tml\<lparr>ExtKeyUsage := [ExtKeyUsageServerAuth]\<rparr>
      in
      case asn1_Marshal (BitString [0x40] 2) of
        Inl err \<Rightarrow> Inl (Wrap err ''can not marshal nsCertType'')
      | Inr val \<Rightarrow>
     (let tml = tml\<lparr>ExtraExtensions :=
                  (ExtraExtensions tml)
                    [0 := (ExtraExtensions tml ! 0)\<lparr>Id_oid := [2, 16, 840, 1, 113730, 1, 1]\<rparr>]\<rparr>;
          tml = tml\<lparr>ExtraExtensions :=
                  (ExtraExtensions tml)[0 := (ExtraExtensions tml ! 0)\<lparr>Value := val\<rparr>]\<rparr>
      in Inr tml))"

definition NewCert ::
  "constants \<Rightarrow> env \<Rightarrow> string \<Rightarrow> bool \<Rightarrow> string list \<Rightarrow> PKI \<Rightarrow> (error + X509Pair) \<times> PKI" where
  "NewCert c e cn server groups p =
     (case GetLastCA p of
        Inl err \<Rightarrow> (Inl (Wrap err ''can`t get ca pair''), p)
      | Inr caPair \<Rightarrow>
     (case Decode caPair of
        Inl err \<Rightarrow> (Inl (Wrap err ''can`t parse ca pair''), p)
      | Inr (caKey, caCert) \<Rightarrow>
     (case rsa_GenerateKey e 2048 of
        Inl err \<Rightarrow> (Inl (Wrap err ''can`t create private key''), p)
      | Inr key \<Rightarrow>
     (case SerialProvider_Next (serialProvider p) of
        (Inl err, sp) \<Rightarrow> (Inl err, p\<lparr>serialProvider := sp\<rparr>)
      | (Inr serial, sp) \<Rightarrow>
     (let p = p\<lparr>serialProvider := sp\<rparr> in
      case asn1_Marshal (BitString [0x80] 2) of
        Inl err \<Rightarrow> (Inl (Wrap err ''can not marshal nsCertType''), p)
      | Inr val \<Rightarrow>
     (let now = Now e 0;
          subj = (subjTemplate p)\<lparr>CommonName := cn\<rparr>;
          tml = NewCert_tml now subj serial cn groups val
      in
      case (if server then NewCert_server tml else Inr tml) of
        Inl err \<Rightarrow> (Inl err, p)
      | Inr tml \<Rightarrow>
     (case x509_CreateCertificate e tml caCert (PublicKey_of key) caKey of
        Inl err \<Rightarrow> (Inl (Wrap err ''certificate cannot be created''), p)
      | Inr cert \<Rightarrow>
     (let priKeyPem = pem_EncodeToMemory
            \<lparr>Type = PEMRSAPrivateKeyBlock c, Bytes = x509_MarshalPKCS1PrivateKey key\<rparr>;
          certPem = pem_EncodeToMemory \<lparr>Type = PEMCertificateBlock c, Bytes = cert\<rparr>;
          res = NewX509Pair priKeyPem certPem cn serial
      in
      case KeyStorage_Put res (Storage p) of
        (Some err, storage) \<Rightarrow> (Inl err, p\<lparr>Storage := storage\<rparr>)
      | (None, storage) \<Rightarrow> (Inr res, p\<lparr>Storage := storage\<rparr>)))))))))"

text \<open>\<^verbatim>\<open>func (p *PKI) ExtractGroups(cert)\<close>\<close>

definition ExtractGroups :: "PKI \<Rightarrow> Certificate \<Rightarrow> error + string list" where
  "ExtractGroups p cert =
     (if length (ExcludedDNSDomains cert) > 0
      then Inr (ExcludedDNSDomains cert)
      else Inl (New ''No groups in certificate''))"

section \<open>Reading the stored CRL\<close>

text \<open>
  The serial numbers of the current CRL as \<open>GetCRL\<close> returns it, and the entries of the
  blob the holder keeps, whether or not the holder can be read.
\<close>

definition CRL_serials :: "PKI \<Rightarrow> error + int list" where
  "CRL_serials p =
     (case GetCRL p of
        Inl err \<Rightarrow> Inl err
      | Inr cl \<Rightarrow> Inr (map RevokedSerialNumber (RevokedCertificates (TBSCertList cl))))"

definition stored_revoked :: "PKI \<Rightarrow> RevokedCertificate list option" where
  "stored_revoked p =
     (case blob (crlHolder p) of
        None \<Rightarrow> None
      | Some content \<Rightarrow>
          (case x509_ParseCRL content of
             Inl err \<Rightarrow> None
           | Inr cl \<Rightarrow> Some (RevokedCertificates (TBSCertList cl))))"

text \<open>
  What \<open>removeDups\<close> keeps, with the keys seen so far as a set: the first entry for
  each value of \<^verbatim>\<open>Int64()\<close>.
\<close>

fun kept :: "RevokedCertificate list \<Rightarrow> 64 word set \<Rightarrow> RevokedCertificate list" where
  "kept [] seen = []"
| "kept (cert # rest) seen =
     (if Int64 (RevokedSerialNumber cert) \<in> seen then kept rest seen
      else cert # kept rest (insert (Int64 (RevokedSerialNumber cert)) seen))"

text \<open>The private key a stored certificate or CRL was signed with.\<close>

fun signing_key :: "pem_bytes \<Rightarrow> PrivateKey option" where
  "signing_key (PEM b) =
     (case Bytes b of
        DERCertificate template parent pub priv \<Rightarrow> Some priv
      | DERCertificateList cl parent priv \<Rightarrow> Some priv
      | _ \<Rightarrow> None)"
| "signing_key NotPEM = None"

text \<open>
  The template of \<open>NewCert\<close> as it stands when it is signed: the struct literal, changed
  by the block \<^verbatim>\<open>if server { ... }\<close> when \<open>server\<close> is true.
\<close>

abbreviation signed_tml ::
  "Time \<Rightarrow> Name \<Rightarrow> int \<Rightarrow> string \<Rightarrow> bool \<Rightarrow> string list \<Rightarrow> Certificate" where
  "signed_tml now subj serial cn server groups \<equiv>
     (NewCert_tml now subj serial cn groups [3, 2, 6, 0x80])
       \<lparr>KeyUsage :=
          (if server
           then KeyUsageDigitalSignature OR KeyUsageKeyAgreement OR KeyUsageKeyEncipherment
           else KeyUsageDigitalSignature OR KeyUsageKeyAgreement),
        ExtKeyUsage := (if server then [ExtKeyUsageServerAuth] else [ExtKeyUsageClientAuth]),
        ExtraExtensions :=
          [\<lparr>Id_oid = [2, 16, 840, 1, 113730, 1, 1], Critical = False,
            Value = (if server then [3, 2, 6, 0x40] else [3, 2, 6, 0x80])\<rparr>]\<rparr>"

section \<open>Example states\<close>

text \<open>
  A PKI with nothing stored; the same after one call of \<open>NewCa\<close>; that one after
  revoking serial 1; and that one with serial 7 revoked and a CRL holder that cannot be
  read for the moment. Then a PKI with two authorities, the one stored first with the
  higher serial.
\<close>

definition constants0 :: constants where
  "constants0 =
     \<lparr>PEMRSAPrivateKeyBlock = ''RSA PRIVATE KEY'', PEMCertificateBlock = ''CERTIFICATE'',
      PEMx509CRLBlock = ''X509 CRL'', DefaultKeySizeBytes = 2048, DefaultExpireYears = 99\<rparr>"

definition env0 :: env where
  "env0 =
     \<lparr>Now = (\<lambda>k. 1700000000000000000 + int k),
      rsa_GenerateKey = (\<lambda>bits. Inr (RSAPrivateKey bits)),
      CreateCertificate_error = None, CreateCRL_error = None,
      pdqsort_func = (\<lambda>s. s)\<rparr>"

definition pki_empty :: PKI where
  "pki_empty =
     NewPKI \<lparr>pairs = [], storage_read_error = None, storage_write_error = None\<rparr>
       \<lparr>last_serial = 0, serial_error = None\<rparr>
       \<lparr>blob = None, crl_read_error = None, crl_write_error = None\<rparr>
       \<lparr>Country = [''DE''], Organization = [''Example''], OrganizationalUnit = [],
        CommonName = []\<rparr>"

definition pki_ca :: PKI where
  "pki_ca = snd (NewCa constants0 env0 pki_empty)"

definition pki_revoked_1 :: PKI where
  "pki_revoked_1 = snd (RevokeOne constants0 env0 1 pki_ca)"

definition pki_unreadable :: PKI where
  "pki_unreadable =
     (let p = snd (RevokeOne constants0 env0 7 pki_ca)
      in p\<lparr>crlHolder :=
             (crlHolder p)\<lparr>crl_read_error := Some (Fault ''read crl: input/output error'')\<rparr>\<rparr>)"

definition authority :: "int \<Rightarrow> int \<Rightarrow> X509Pair" where
  "authority serial k =
     (let template = NewCa_template constants0 serial
            (zero_Name\<lparr>CommonName := ''ca''\<rparr>) 1600000000000000000
      in NewX509Pair
           (pem_EncodeToMemory
              \<lparr>Type = ''RSA PRIVATE KEY'',
               Bytes = x509_MarshalPKCS1PrivateKey (RSAPrivateKey k)\<rparr>)
           (pem_EncodeToMemory
              \<lparr>Type = ''CERTIFICATE'',
               Bytes = DERCertificate template template (RSAPublicKey k) (RSAPrivateKey k)\<rparr>)
           ''ca'' serial)"

definition pki_two_authorities :: PKI where
  "pki_two_authorities =
     NewPKI
       \<lparr>pairs = [authority 5 55, authority 3 33], storage_read_error = None,
        storage_write_error = None\<rparr>
       \<lparr>last_serial = 5, serial_error = None\<rparr>
       \<lparr>blob = None, crl_read_error = None, crl_write_error = None\<rparr>
       zero_Name"

section \<open>What a successful call did\<close>

lemma success_cases: "\<not> isl (fst r) \<Longrightarrow> \<exists>x s. r = (Inr x, s)"
  by (cases r; cases "fst r") auto

lemma NewCert_Inr:
  assumes "NewCert c e cn server groups p = (Inr pair, p')"
  obtains caPair caKey caCert key serial sp val tml where
    "GetLastCA p = Inr caPair"
    "Decode caPair = Inr (caKey, caCert)"
    "rsa_GenerateKey e 2048 = Inr key"
    "SerialProvider_Next (serialProvider p) = (Inr serial, sp)"
    "asn1_Marshal (BitString [0x80] 2) = Inr val"
    "(let t = NewCert_tml (Now e 0) ((subjTemplate p)\<lparr>CommonName := cn\<rparr>) serial cn groups val
      in if server then NewCert_server t else Inr t) = Inr tml"
    "pair = NewX509Pair
       (pem_EncodeToMemory
          \<lparr>Type = PEMRSAPrivateKeyBlock c, Bytes = x509_MarshalPKCS1PrivateKey key\<rparr>)
       (pem_EncodeToMemory
          \<lparr>Type = PEMCertificateBlock c,
           Bytes = DERCertificate tml caCert (PublicKey_of key) caKey\<rparr>)
       cn serial"
  using assms
  unfolding NewCert_def Let_def x509_CreateCertificate_def KeyStorage_Put_def
  by (auto split: sum.splits option.splits prod.splits if_splits)

lemma NewCa_Inr:
  assumes "NewCa c e p = (Inr pair, p')"
  obtains key serial sp where
    "rsa_GenerateKey e (DefaultKeySizeBytes c) = Inr key"
    "SerialProvider_Next (serialProvider p) = (Inr serial, sp)"
    "pair = NewX509Pair
       (pem_EncodeToMemory
          \<lparr>Type = PEMRSAPrivateKeyBlock c, Bytes = x509_MarshalPKCS1PrivateKey key\<rparr>)
       (pem_EncodeToMemory
          \<lparr>Type = PEMCertificateBlock c,
           Bytes = DERCertificate
             (NewCa_template c serial ((subjTemplate p)\<lparr>CommonName := ''ca''\<rparr>) (Now e 0))
             (NewCa_template c serial ((subjTemplate p)\<lparr>CommonName := ''ca''\<rparr>) (Now e 0))
             (PublicKey_of key) key\<rparr>)
       ''ca'' serial"
  using assms
  unfolding NewCa_def Let_def x509_CreateCertificate_def KeyStorage_Put_def
  by (auto split: sum.splits option.splits prod.splits if_splits)

lemma RevokeOne_Inr_None:
  assumes "RevokeOne c e serial p = (Inr None, p')"
  obtains stored caPair rest caKey caCert where
    "KeyStorage_GetByCN ''ca'' (Storage p) = Inr stored"
    "sort_Slice (pdqsort_func e) (\<lambda>pi pj. Cmp (Serial pi) (Serial pj) = 1) stored
       = caPair # rest"
    "Decode caPair = Inr (caKey, caCert)"
    "CreateCRL_error e = None"
    "crl_write_error (crlHolder p) = None"
    "p' = p\<lparr>crlHolder := (crlHolder p)\<lparr>blob := Some (PEM
        \<lparr>Type = PEMx509CRLBlock c,
         Bytes = DERCertificateList
           \<lparr>TBSCertList =
              \<lparr>CRLIssuer = Subject caCert, ThisUpdate = Now e 1,
               NextUpdate = Now e 2 + 99 * 365 * 24 * Hour,
               RevokedCertificates =
                 removeDups
                   ((case GetCRL p of
                       Inr oldList \<Rightarrow> RevokedCertificates (TBSCertList oldList)
                     | Inl err \<Rightarrow> [])
                    @ [\<lparr>RevokedSerialNumber = serial, RevocationTime = Now e 0\<rparr>])\<rparr>\<rparr>
           caCert caKey\<rparr>)\<rparr>\<rparr>"
  using assms
  unfolding RevokeOne_def Let_def CreateCRL_def CRLHolder_Put_def pem_EncodeToMemory_def
    UTC_def Add_def
  by (auto split: sum.splits option.splits prod.splits if_splits list.splits)

lemma asn1_Marshal_client: "asn1_Marshal (BitString [0x80] 2) = Inr [3, 2, 6, 0x80]"
  by (simp add: appendLength_def)

lemma asn1_Marshal_server: "asn1_Marshal (BitString [0x40] 2) = Inr [3, 2, 6, 0x40]"
  by (simp add: appendLength_def)

lemma NewCert_final_tml:
  assumes "(let t = NewCert_tml now subj serial cn groups val
            in if server then NewCert_server t else Inr t) = Inr tml"
  shows "tml = (NewCert_tml now subj serial cn groups val)
           \<lparr>KeyUsage := (if server
              then KeyUsageDigitalSignature OR KeyUsageKeyAgreement OR KeyUsageKeyEncipherment
              else KeyUsageDigitalSignature OR KeyUsageKeyAgreement),
            ExtKeyUsage := (if server then [ExtKeyUsageServerAuth] else [ExtKeyUsageClientAuth]),
            ExtraExtensions :=
              [\<lparr>Id_oid = [2, 16, 840, 1, 113730, 1, 1], Critical = False,
                Value = (if server then [3, 2, 6, 0x40] else val)\<rparr>]\<rparr>"
  using assms
  by (cases server)
     (auto simp: Let_def NewCert_server_def NewCert_tml_def asn1_Marshal_server
           simp del: asn1_Marshal.simps)

text \<open>The pair a successful \<open>NewCert\<close> returns, in terms of its inputs.\<close>

lemma NewCert_signed:
  assumes "NewCert c e cn server groups p = (Inr pair, p')"
  obtains caPair caKey caCert key serial where
    "GetLastCA p = Inr caPair"
    "Decode caPair = Inr (caKey, caCert)"
    "KeyPemBytes pair = PEM \<lparr>Type = PEMRSAPrivateKeyBlock c, Bytes = DERPrivateKey key\<rparr>"
    "CertPemBytes pair = PEM
       \<lparr>Type = PEMCertificateBlock c,
        Bytes = DERCertificate
          (signed_tml (Now e 0) ((subjTemplate p)\<lparr>CommonName := cn\<rparr>) serial cn server groups)
          caCert (PublicKey_of key) caKey\<rparr>"
proof -
  from assms obtain caPair caKey caCert key serial sp val tml where
    h: "GetLastCA p = Inr caPair"
    "Decode caPair = Inr (caKey, caCert)"
    "asn1_Marshal (BitString [0x80] 2) = Inr val"
    "(let t = NewCert_tml (Now e 0) ((subjTemplate p)\<lparr>CommonName := cn\<rparr>) serial cn groups val
      in if server then NewCert_server t else Inr t) = Inr tml"
    "pair = NewX509Pair
       (pem_EncodeToMemory
          \<lparr>Type = PEMRSAPrivateKeyBlock c, Bytes = x509_MarshalPKCS1PrivateKey key\<rparr>)
       (pem_EncodeToMemory
          \<lparr>Type = PEMCertificateBlock c,
           Bytes = DERCertificate tml caCert (PublicKey_of key) caKey\<rparr>)
       cn serial"
    by (rule NewCert_Inr)
  from h(3) have val: "val = [3, 2, 6, 0x80]"
    by (simp add: asn1_Marshal_client del: asn1_Marshal.simps)
  note tml = NewCert_final_tml [OF h(4)]
  show thesis
  proof (rule that [OF h(1) h(2), of key serial])
    show "KeyPemBytes pair = PEM \<lparr>Type = PEMRSAPrivateKeyBlock c, Bytes = DERPrivateKey key\<rparr>"
      by (simp add: h(5) NewX509Pair_def pem_EncodeToMemory_def x509_MarshalPKCS1PrivateKey_def)
    show "CertPemBytes pair = PEM
       \<lparr>Type = PEMCertificateBlock c,
        Bytes = DERCertificate
          (signed_tml (Now e 0) ((subjTemplate p)\<lparr>CommonName := cn\<rparr>) serial cn server groups)
          caCert (PublicKey_of key) caKey\<rparr>"
      using tml val by (simp add: h(5) NewX509Pair_def pem_EncodeToMemory_def)
  qed
qed

text \<open>The certificate a successful \<open>NewCa\<close> returns.\<close>

lemma NewCa_signed:
  assumes "NewCa c e p = (Inr pair, p')"
  obtains key serial where
    "CertPemBytes pair = PEM
       \<lparr>Type = PEMCertificateBlock c,
        Bytes = DERCertificate
          (NewCa_template c serial ((subjTemplate p)\<lparr>CommonName := ''ca''\<rparr>) (Now e 0))
          (NewCa_template c serial ((subjTemplate p)\<lparr>CommonName := ''ca''\<rparr>) (Now e 0))
          (PublicKey_of key) key\<rparr>"
proof -
  from assms obtain key serial sp where
    "pair = NewX509Pair
       (pem_EncodeToMemory
          \<lparr>Type = PEMRSAPrivateKeyBlock c, Bytes = x509_MarshalPKCS1PrivateKey key\<rparr>)
       (pem_EncodeToMemory
          \<lparr>Type = PEMCertificateBlock c,
           Bytes = DERCertificate
             (NewCa_template c serial ((subjTemplate p)\<lparr>CommonName := ''ca''\<rparr>) (Now e 0))
             (NewCa_template c serial ((subjTemplate p)\<lparr>CommonName := ''ca''\<rparr>) (Now e 0))
             (PublicKey_of key) key\<rparr>)
       ''ca'' serial"
    by (rule NewCa_Inr)
  then show thesis
    by (intro that [of serial key]) (simp add: NewX509Pair_def pem_EncodeToMemory_def)
qed

text \<open>The CRL a successful \<open>RevokeOne\<close> stores.\<close>

lemma RevokeOne_stored:
  assumes "RevokeOne c e serial p = (Inr None, p')"
  obtains stored caPair rest caKey caCert where
    "KeyStorage_GetByCN ''ca'' (Storage p) = Inr stored"
    "sort_Slice (pdqsort_func e) (\<lambda>pi pj. Cmp (Serial pi) (Serial pj) = 1) stored
       = caPair # rest"
    "Decode caPair = Inr (caKey, caCert)"
    "blob (crlHolder p') = Some (PEM
        \<lparr>Type = PEMx509CRLBlock c,
         Bytes = DERCertificateList
           \<lparr>TBSCertList =
              \<lparr>CRLIssuer = Subject caCert, ThisUpdate = Now e 1,
               NextUpdate = Now e 2 + 99 * 365 * 24 * Hour,
               RevokedCertificates =
                 removeDups
                   ((case GetCRL p of
                       Inr oldList \<Rightarrow> RevokedCertificates (TBSCertList oldList)
                     | Inl err \<Rightarrow> [])
                    @ [\<lparr>RevokedSerialNumber = serial, RevocationTime = Now e 0\<rparr>])\<rparr>\<rparr>
           caCert caKey\<rparr>)"
proof -
  from assms obtain stored caPair rest caKey caCert where
    h: "KeyStorage_GetByCN ''ca'' (Storage p) = Inr stored"
    "sort_Slice (pdqsort_func e) (\<lambda>pi pj. Cmp (Serial pi) (Serial pj) = 1) stored
       = caPair # rest"
    "Decode caPair = Inr (caKey, caCert)"
    "p' = p\<lparr>crlHolder := (crlHolder p)\<lparr>blob := Some (PEM
        \<lparr>Type = PEMx509CRLBlock c,
         Bytes = DERCertificateList
           \<lparr>TBSCertList =
              \<lparr>CRLIssuer = Subject caCert, ThisUpdate = Now e 1,
               NextUpdate = Now e 2 + 99 * 365 * 24 * Hour,
               RevokedCertificates =
                 removeDups
                   ((case GetCRL p of
                       Inr oldList \<Rightarrow> RevokedCertificates (TBSCertList oldList)
                     | Inl err \<Rightarrow> [])
                    @ [\<lparr>RevokedSerialNumber = serial, RevocationTime = Now e 0\<rparr>])\<rparr>\<rparr>
           caCert caKey\<rparr>)\<rparr>\<rparr>"
    by (rule RevokeOne_Inr_None)
  show thesis
    by (rule that [OF h(1) h(2) h(3)]) (simp add: h(4))
qed

text \<open>The calls succeed when the collaborators and the library do.\<close>

lemma NewCa_succeeds:
  assumes "rsa_GenerateKey e (DefaultKeySizeBytes c) = Inr key"
    and "serial_error (serialProvider p) = None"
    and "CreateCertificate_error e = None"
    and "storage_write_error (Storage p) = None"
  shows "\<exists>pair p'. NewCa c e p = (Inr pair, p')"
  using assms
  by (simp add: NewCa_def Let_def SerialProvider_Next_def x509_CreateCertificate_def
        KeyStorage_Put_def)

lemma NewCert_succeeds:
  assumes "GetLastCA p = Inr caPair"
    and "Decode caPair = Inr (caKey, caCert)"
    and "rsa_GenerateKey e 2048 = Inr key"
    and "serial_error (serialProvider p) = None"
    and "CreateCertificate_error e = None"
    and "storage_write_error (Storage p) = None"
  shows "\<exists>pair p'. NewCert c e cn server groups p = (Inr pair, p')"
  using assms
  by (cases server)
     (simp_all add: NewCert_def Let_def SerialProvider_Next_def x509_CreateCertificate_def
        KeyStorage_Put_def NewCert_server_def asn1_Marshal_client asn1_Marshal_server
        del: asn1_Marshal.simps)

lemma RevokeOne_succeeds:
  assumes "KeyStorage_GetByCN ''ca'' (Storage p) = Inr stored"
    and "sort_Slice (pdqsort_func e) (\<lambda>pi pj. Cmp (Serial pi) (Serial pj) = 1) stored
       = caPair # rest"
    and "Decode caPair = Inr (caKey, caCert)"
    and "CreateCRL_error e = None"
    and "crl_write_error (crlHolder p) = None"
  shows "fst (RevokeOne c e serial p) = Inr None"
  using assms
  by (simp add: RevokeOne_def Let_def CreateCRL_def CRLHolder_Put_def)

section \<open>The order of the authorities\<close>

text \<open>
  After \<open>sort_Slice\<close> with the comparison of \<open>RevokeOne\<close> the first pair is one of the
  stored pairs and no stored pair has a higher serial, whichever of the two algorithms
  sorted.
\<close>

lemma set_insert_left: "set (insert_left lt x ys) = insert x (set ys)"
  by (induction ys) auto

lemma insert_left_not_Nil: "insert_left lt x ys \<noteq> []"
  by (cases ys) auto

lemma last_insert_left_max:
  assumes "ys \<noteq> [] \<Longrightarrow> (\<forall>z \<in> set ys. Serial z \<le> Serial (last ys))"
  shows "\<forall>z \<in> set (insert_left (\<lambda>pi pj. Cmp (Serial pi) (Serial pj) = 1) x ys).
           Serial z \<le> Serial (last (insert_left (\<lambda>pi pj. Cmp (Serial pi) (Serial pj) = 1) x ys))"
  using assms
proof (induction ys)
  case Nil
  then show ?case by simp
next
  case (Cons y ys)
  let ?lt = "\<lambda>pi pj. Cmp (Serial pi) (Serial pj) = 1"
  show ?case
  proof (cases "?lt x y")
    case False
    then have "Serial x \<le> Serial y" by (auto simp: Cmp_def split: if_splits)
    moreover have "\<forall>z \<in> set (y # ys). Serial z \<le> Serial (last (y # ys))"
      using Cons.prems by simp
    ultimately show ?thesis using False by auto
  next
    case True
    then have xy: "Serial y < Serial x" by (auto simp: Cmp_def split: if_splits)
    have all: "\<forall>z \<in> set (y # ys). Serial z \<le> Serial (last (y # ys))"
      using Cons.prems by simp
    have ih: "\<forall>z \<in> set (insert_left ?lt x ys). Serial z \<le> Serial (last (insert_left ?lt x ys))"
    proof (rule Cons.IH)
      assume "ys \<noteq> []"
      then show "\<forall>z \<in> set ys. Serial z \<le> Serial (last ys)" using all by auto
    qed
    have "x \<in> set (insert_left ?lt x ys)" by (simp add: set_insert_left)
    then have "Serial x \<le> Serial (last (insert_left ?lt x ys))" using ih by blast
    then have "Serial y \<le> Serial (last (insert_left ?lt x ys))" using xy by simp
    then show ?thesis using True ih by (simp add: insert_left_not_Nil)
  qed
qed

lemma foldl_insert_left_max:
  assumes "acc \<noteq> [] \<Longrightarrow> (\<forall>z \<in> set acc. Serial z \<le> Serial (last acc))"
  shows "foldl (\<lambda>prefix x. insert_left (\<lambda>pi pj. Cmp (Serial pi) (Serial pj) = 1) x prefix)
           acc s \<noteq> [] \<Longrightarrow>
         (\<forall>z \<in> set (foldl (\<lambda>prefix x.
                insert_left (\<lambda>pi pj. Cmp (Serial pi) (Serial pj) = 1) x prefix) acc s).
            Serial z \<le> Serial (last (foldl (\<lambda>prefix x.
                insert_left (\<lambda>pi pj. Cmp (Serial pi) (Serial pj) = 1) x prefix) acc s)))"
  using assms
proof (induction s arbitrary: acc)
  case Nil
  then show ?case by simp
next
  case (Cons x s)
  show ?case
    using Cons.prems(1) last_insert_left_max [of acc x] Cons.prems(2)
    by (simp add: Cons.IH)
qed

lemma set_foldl_insert_left:
  "set (foldl (\<lambda>prefix x. insert_left lt x prefix) acc s) = set acc \<union> set s"
  by (induction s arbitrary: acc) (auto simp: set_insert_left)

lemma insertionSortLessFunc_head:
  assumes "insertionSortLessFunc (\<lambda>pi pj. Cmp (Serial pi) (Serial pj) = 1) stored
             = caPair # rest"
  shows "caPair \<in> set stored \<and> (\<forall>z \<in> set stored. Serial z \<le> Serial caPair)"
proof -
  let ?f = "foldl (\<lambda>prefix x. insert_left (\<lambda>pi pj. Cmp (Serial pi) (Serial pj) = 1) x prefix)
              [] stored"
  have r: "rev ?f = caPair # rest" using assms by (simp add: insertionSortLessFunc_def)
  then have ne: "?f \<noteq> []" by auto
  have l: "last ?f = caPair" using r by (metis hd_rev list.sel(1))
  have "\<forall>z \<in> set ?f. Serial z \<le> Serial (last ?f)"
    using foldl_insert_left_max [of "[]" stored] ne by simp
  moreover have "set ?f = set stored" by (simp add: set_foldl_insert_left)
  moreover have "last ?f \<in> set ?f" using ne by simp
  ultimately show ?thesis using l by auto
qed

lemma sorted_permutation_head:
  assumes "mset result = mset stored"
    and "sorted_wrt (\<lambda>x y. \<not> Cmp (Serial y) (Serial x) = 1) result"
    and "result = caPair # rest"
  shows "caPair \<in> set stored \<and> (\<forall>z \<in> set stored. Serial z \<le> Serial caPair)"
proof -
  have sets: "set stored = set (caPair # rest)"
    using assms(1) assms(3) by (metis mset_eq_setD)
  have "\<forall>z \<in> set rest. \<not> Cmp (Serial z) (Serial caPair) = 1"
    using assms(2) assms(3) by simp
  then have "\<forall>z \<in> set rest. Serial z \<le> Serial caPair"
    by (auto simp: Cmp_def split: if_splits)
  then show ?thesis using sets by auto
qed

lemma sort_Slice_head:
  assumes "sort_Slice pdq (\<lambda>pi pj. Cmp (Serial pi) (Serial pj) = 1) stored = caPair # rest"
  shows "caPair \<in> set stored \<and> (\<forall>z \<in> set stored. Serial z \<le> Serial caPair)"
proof (cases "length stored \<le> 12 \<or>
    \<not> (mset (pdq stored) = mset stored \<and>
       sorted_wrt (\<lambda>x y. \<not> Cmp (Serial y) (Serial x) = 1) (pdq stored))")
  case True
  then have "insertionSortLessFunc (\<lambda>pi pj. Cmp (Serial pi) (Serial pj) = 1) stored
               = caPair # rest"
    using assms by (auto simp: sort_Slice_def split: if_splits)
  then show ?thesis by (rule insertionSortLessFunc_head)
next
  case False
  then have "pdq stored = caPair # rest"
    using assms by (auto simp: sort_Slice_def split: if_splits)
  then show ?thesis using False sorted_permutation_head [of "pdq stored" stored caPair rest]
    by blast
qed

text \<open>A stored authority is enough for \<^verbatim>\<open>caPairs[0]\<close> to exist.\<close>

lemma insertionSortLessFunc_not_Nil: "stored \<noteq> [] \<Longrightarrow> insertionSortLessFunc lt stored \<noteq> []"
proof -
  assume "stored \<noteq> []"
  then have "set (foldl (\<lambda>prefix x. insert_left lt x prefix) [] stored) \<noteq> {}"
    by (simp add: set_foldl_insert_left)
  then show ?thesis by (auto simp: insertionSortLessFunc_def)
qed

lemma sort_Slice_not_Nil: "stored \<noteq> [] \<Longrightarrow> sort_Slice pdq lt stored \<noteq> []"
  using insertionSortLessFunc_not_Nil [of stored lt]
  by (auto simp: sort_Slice_def)

section \<open>Revocation\<close>

text \<open>
  Two serials that agree in their low 64 bits have the same \<^verbatim>\<open>Int64()\<close>, which is the key
  \<open>removeDups\<close> compares.
\<close>

lemma Int64_low_bits: "Int64 (2 ^ 64 + 1) = Int64 1"
  by (simp add: Int64_def)

lemma removeDups_low_bits:
  "removeDups [\<lparr>RevokedSerialNumber = 1, RevocationTime = t\<rparr>,
               \<lparr>RevokedSerialNumber = 2 ^ 64 + 1, RevocationTime = t'\<rparr>] =
     [\<lparr>RevokedSerialNumber = 1, RevocationTime = t\<rparr>]"
  by (simp add: removeDups_def encountered_at_def Int64_def)

lemma Int64_word_of_int: "Int64 x = word_of_int x"
  by (simp add: Int64_def Let_def)

lemma Int64_eq_iff: "Int64 x = Int64 y \<longleftrightarrow> x mod 2 ^ 64 = y mod 2 ^ 64"
  by (simp add: Int64_word_of_int word_of_int_eq_iff take_bit_eq_mod)

lemma removeDups_loop_kept:
  "removeDups_loop xs enc res = res @ kept xs {k. encountered_at enc k}"
proof (induction xs arbitrary: enc res)
  case Nil
  then show ?case by simp
next
  case (Cons cert rest)
  let ?k = "Int64 (RevokedSerialNumber cert)"
  show ?case
  proof (cases "encountered_at enc ?k")
    case True
    then show ?thesis by (simp add: Cons.IH)
  next
    case False
    have seen: "{k. encountered_at (enc(?k \<mapsto> True)) k} = insert ?k {k. encountered_at enc k}"
      by (auto simp: encountered_at_def)
    have "removeDups_loop (cert # rest) enc res
            = (res @ [cert]) @ kept rest {k. encountered_at (enc(?k \<mapsto> True)) k}"
      using False by (simp only: removeDups_loop.simps Cons.IH not_False_eq_True if_True)
    also have "\<dots> = res @ kept (cert # rest) {k. encountered_at enc k}"
      using False by (simp only: seen) simp
    finally show ?thesis .
  qed
qed

lemma removeDups_kept: "removeDups xs = kept xs {}"
  by (simp add: removeDups_def removeDups_loop_kept encountered_at_def)

lemma kept_append:
  "kept (xs @ ys) seen = kept xs seen @ kept ys (seen \<union> (\<lambda>c. Int64 (RevokedSerialNumber c)) ` set xs)"
proof (induction xs arbitrary: seen)
  case Nil
  then show ?case by simp
next
  case (Cons c cs)
  show ?case
  proof (cases "Int64 (RevokedSerialNumber c) \<in> seen")
    case True
    then have "seen \<union> (\<lambda>c. Int64 (RevokedSerialNumber c)) ` set (c # cs)
                 = seen \<union> (\<lambda>c. Int64 (RevokedSerialNumber c)) ` set cs" by auto
    then show ?thesis using True by (simp add: Cons.IH)
  next
    case False
    have "insert (Int64 (RevokedSerialNumber c)) seen \<union> (\<lambda>c. Int64 (RevokedSerialNumber c)) ` set cs
            = seen \<union> (\<lambda>c. Int64 (RevokedSerialNumber c)) ` set (c # cs)" by auto
    then show ?thesis using False by (simp add: Cons.IH)
  qed
qed

lemma keys_kept:
  "(\<lambda>c. Int64 (RevokedSerialNumber c)) ` set (kept xs seen)
     = (\<lambda>c. Int64 (RevokedSerialNumber c)) ` set xs - seen"
  by (induction xs arbitrary: seen) auto

lemma kept_kept: "kept (kept xs seen) seen = kept xs seen"
  by (induction xs arbitrary: seen) auto

lemma set_kept: "set (kept xs seen) \<subseteq> set xs"
  by (induction xs arbitrary: seen) auto

lemma distinct_keys_kept:
  "distinct (map (\<lambda>c. Int64 (RevokedSerialNumber c)) (kept xs seen))"
proof (induction xs arbitrary: seen)
  case Nil
  then show ?case by simp
next
  case (Cons c cs)
  have "Int64 (RevokedSerialNumber c) \<notin>
          (\<lambda>c. Int64 (RevokedSerialNumber c)) ` set (kept cs (insert (Int64 (RevokedSerialNumber c)) seen))"
    by (simp add: keys_kept)
  then show ?case by (simp add: Cons.IH)
qed

text \<open>
  \<open>removeDups\<close> leaves entries with distinct truncated serials, and an entry appended
  for a serial that was appended before is dropped.
\<close>

lemma removeDups_distinct_keys:
  "distinct (map (\<lambda>c. Int64 (RevokedSerialNumber c)) (removeDups xs))"
  by (simp add: removeDups_kept distinct_keys_kept)

lemma removeDups_again:
  assumes "Int64 (RevokedSerialNumber b) = Int64 (RevokedSerialNumber a)"
  shows "removeDups (removeDups (xs @ [a]) @ [b]) = removeDups (xs @ [a])"
proof -
  have "Int64 (RevokedSerialNumber b) \<in>
          (\<lambda>c. Int64 (RevokedSerialNumber c)) ` set (kept (xs @ [a]) {})"
    using assms by (simp add: keys_kept)
  then show ?thesis
    by (simp add: removeDups_kept kept_append [of "kept (xs @ [a]) {}"] kept_kept)
qed

lemma removeDups_collision:
  assumes "Int64 s2 = Int64 s1"
  shows "removeDups [\<lparr>RevokedSerialNumber = s1, RevocationTime = t1\<rparr>,
                      \<lparr>RevokedSerialNumber = s2, RevocationTime = t2\<rparr>] =
           [\<lparr>RevokedSerialNumber = s1, RevocationTime = t1\<rparr>]"
  using assms by (simp add: removeDups_kept)

lemma IsRevoked_loop_iff:
  "IsRevoked_loop xs serial \<longleftrightarrow> serial \<in> RevokedSerialNumber ` set xs"
  by (induction xs) (auto simp: Cmp_def)

lemma IsRevoked_without_CRL: "GetCRL p = Inl err \<Longrightarrow> IsRevoked serial p = False"
  by (simp add: IsRevoked_def zero_CertificateList_def)

lemma IsRevoked_with_CRL:
  "GetCRL p = Inr cl \<Longrightarrow>
     IsRevoked serial p \<longleftrightarrow>
       serial \<in> RevokedSerialNumber ` set (RevokedCertificates (TBSCertList cl))"
  by (simp add: IsRevoked_def IsRevoked_loop_iff)

text \<open>Revoking the same serial again leaves the stored list as it is.\<close>

lemma RevokeOne_again:
  assumes first: "RevokeOne c e serial p = (Inr None, p1)"
    and second: "RevokeOne c e' serial p1 = (Inr None, p2)"
    and readable: "crl_read_error (crlHolder p) = None"
  shows "stored_revoked p2 = stored_revoked p1"
proof -
  let ?old = "case GetCRL p of
                Inr oldList \<Rightarrow> RevokedCertificates (TBSCertList oldList)
              | Inl err \<Rightarrow> []"
  let ?a = "\<lparr>RevokedSerialNumber = serial, RevocationTime = Now e 0\<rparr>"
  let ?b = "\<lparr>RevokedSerialNumber = serial, RevocationTime = Now e' 0\<rparr>"
  from first obtain stored caPair rest caKey caCert where
    p1: "p1 = p\<lparr>crlHolder := (crlHolder p)\<lparr>blob := Some (PEM
        \<lparr>Type = PEMx509CRLBlock c,
         Bytes = DERCertificateList
           \<lparr>TBSCertList =
              \<lparr>CRLIssuer = Subject caCert, ThisUpdate = Now e 1,
               NextUpdate = Now e 2 + 99 * 365 * 24 * Hour,
               RevokedCertificates = removeDups (?old @ [?a])\<rparr>\<rparr>
           caCert caKey\<rparr>)\<rparr>\<rparr>"
    by (rule RevokeOne_Inr_None)
  have s1: "stored_revoked p1 = Some (removeDups (?old @ [?a]))"
    by (simp add: p1 stored_revoked_def)
  have g1: "GetCRL p1 = Inr
           \<lparr>TBSCertList =
              \<lparr>CRLIssuer = Subject caCert, ThisUpdate = Now e 1,
               NextUpdate = Now e 2 + 99 * 365 * 24 * Hour,
               RevokedCertificates = removeDups (?old @ [?a])\<rparr>\<rparr>"
    using readable by (simp add: p1 GetCRL_def CRLHolder_Get_def)
  from second obtain stored' caPair' rest' caKey' caCert' where
    "blob (crlHolder p2) = Some (PEM
        \<lparr>Type = PEMx509CRLBlock c,
         Bytes = DERCertificateList
           \<lparr>TBSCertList =
              \<lparr>CRLIssuer = Subject caCert', ThisUpdate = Now e' 1,
               NextUpdate = Now e' 2 + 99 * 365 * 24 * Hour,
               RevokedCertificates =
                 removeDups
                   ((case GetCRL p1 of
                       Inr oldList \<Rightarrow> RevokedCertificates (TBSCertList oldList)
                     | Inl err \<Rightarrow> [])
                    @ [?b])\<rparr>\<rparr>
           caCert' caKey'\<rparr>)"
    by (rule RevokeOne_stored)
  then have "stored_revoked p2 = Some (removeDups (removeDups (?old @ [?a]) @ [?b]))"
    by (simp add: stored_revoked_def g1)
  then show ?thesis
    by (simp add: s1 removeDups_again)
qed

text \<open>
  C1. Revoking two distinct serials is claimed to leave an entry for each in the CRL. With
  one authority stored and no CRL yet, revoking 1 and then \<open>2 ^ 64 + 1\<close> succeeds twice, and
  the CRL holds serial 1 only: \<open>removeDups\<close> compares the serials truncated to 64 bits and
  drops the second entry.
\<close>

theorem RevokeOne_drops_serial_equal_in_low_64_bits:
  "fst (RevokeOne constants0 env0 1 pki_ca) = Inr None \<and>
   fst (RevokeOne constants0 env0 (2 ^ 64 + 1) (snd (RevokeOne constants0 env0 1 pki_ca)))
     = Inr None \<and>
   CRL_serials (snd (RevokeOne constants0 env0 (2 ^ 64 + 1)
       (snd (RevokeOne constants0 env0 1 pki_ca)))) = Inr [1]"
  by code_simp

text \<open>
  C2. \<open>IsRevoked s\<close> is claimed to be true right after a successful \<open>RevokeOne s\<close>. In the
  state where serial 1 is revoked, \<open>RevokeOne (2 ^ 64 + 1)\<close> returns nil and
  \<open>IsRevoked (2 ^ 64 + 1)\<close> is false afterwards.
\<close>

theorem IsRevoked_false_after_RevokeOne:
  "CRL_serials pki_revoked_1 = Inr [1] \<and>
   fst (RevokeOne constants0 env0 (2 ^ 64 + 1) pki_revoked_1) = Inr None \<and>
   IsRevoked (2 ^ 64 + 1) (snd (RevokeOne constants0 env0 (2 ^ 64 + 1) pki_revoked_1)) = False"
  by code_simp

text \<open>
  The errors of \<open>RevokeOne\<close> around the choice of the authority, and what \<open>NewCert\<close>
  returns when no authority is stored.
\<close>

lemma RevokeOne_storage_failure:
  assumes "KeyStorage_GetByCN ''ca'' (Storage p) = Inl err"
  shows "RevokeOne c e serial p =
           (Inr (Some (Wrap err ''can`t get ca certs for signing crl'')), p)"
  using assms by (simp add: RevokeOne_def)

lemma RevokeOne_decode_failure:
  assumes "KeyStorage_GetByCN ''ca'' (Storage p) = Inr stored"
    and "sort_Slice (pdqsort_func e) (\<lambda>pi pj. Cmp (Serial pi) (Serial pj) = 1) stored
       = caPair # rest"
    and "Decode caPair = Inl err"
  shows "RevokeOne c e serial p =
           (Inr (Some (Wrap err ''can`t decode ca certs for signing crl'')), p)"
  using assms by (simp add: RevokeOne_def)

lemma NewCert_without_authority:
  "fst (NewCert c e cn server groups
          (NewPKI \<lparr>pairs = [], storage_read_error = None, storage_write_error = None\<rparr>
             sp holder subj)) = Inl (Wrap NotFound ''can`t get ca pair'')"
  by (simp add: NewCert_def GetLastCA_def KeyStorage_GetLastByCn_def NewPKI_def)

text \<open>
  C3. With no authority pair stored, \<open>RevokeOne\<close> is claimed to return an error. When the
  storage answers \<open>GetByCN "ca"\<close> with an empty list and no error, \<open>RevokeOne\<close> panics at
  \<^verbatim>\<open>caPairs[0]\<close>, for every serial.
\<close>

theorem RevokeOne_panics_without_authority:
  "fst (RevokeOne c e serial
          (NewPKI \<lparr>pairs = [], storage_read_error = None, storage_write_error = None\<rparr>
             sp holder subj)) = Inl (IndexOutOfRange 0 0)"
  by (simp add: RevokeOne_def NewPKI_def KeyStorage_GetByCN_def sort_Slice_def
        insertionSortLessFunc_def Let_def)

text \<open>
  C4. Calling \<open>RevokeOne s\<close> twice is claimed to leave exactly one entry for \<open>s\<close>. In the
  state where serial 1 is revoked, two successful calls for \<open>2 ^ 64 + 1\<close> leave no entry
  for it.
\<close>

theorem RevokeOne_twice_leaves_no_entry:
  "fst (RevokeOne constants0 env0 (2 ^ 64 + 1) pki_revoked_1) = Inr None \<and>
   fst (RevokeOne constants0 env0 (2 ^ 64 + 1)
          (snd (RevokeOne constants0 env0 (2 ^ 64 + 1) pki_revoked_1))) = Inr None \<and>
   CRL_serials (snd (RevokeOne constants0 env0 (2 ^ 64 + 1)
       (snd (RevokeOne constants0 env0 (2 ^ 64 + 1) pki_revoked_1)))) = Inr [1]"
  by code_simp

section \<open>The example states\<close>

lemma constants0_fields:
  "PEMRSAPrivateKeyBlock constants0 = ''RSA PRIVATE KEY''"
  "PEMCertificateBlock constants0 = ''CERTIFICATE''"
  "PEMx509CRLBlock constants0 = ''X509 CRL''"
  by (simp_all add: constants0_def)

lemma Now_env0: "Now env0 k = 1700000000000000000 + int k"
  by (simp add: env0_def)

text \<open>The calls of \<open>NewCa\<close> and \<open>NewCert\<close> on the example states succeed.\<close>

lemma NewCa_example: "\<exists>pair p'. NewCa constants0 env0 pki_empty = (Inr pair, p')"
proof -
  have "\<not> isl (fst (NewCa constants0 env0 pki_empty))"
    by code_simp
  then show ?thesis by (rule success_cases)
qed

lemma NewCert_server_example:
  "\<exists>pair p'. NewCert constants0 env0 ''svc-a'' True [''web''] pki_ca = (Inr pair, p')"
proof -
  have "\<not> isl (fst (NewCert constants0 env0 ''svc-a'' True [''web''] pki_ca))"
    by code_simp
  then show ?thesis by (rule success_cases)
qed

lemma NewCert_client_example:
  "\<exists>pair p'. NewCert constants0 env0 ''svc-b'' False [] pki_ca = (Inr pair, p')"
proof -
  have "\<not> isl (fst (NewCert constants0 env0 ''svc-b'' False [] pki_ca))"
    by code_simp
  then show ?thesis by (rule success_cases)
qed

section \<open>Issuing\<close>

text \<open>The pair stored last for a name is the one \<open>GetLastByCn\<close> returns.\<close>

lemma GetLastByCn_after_Put:
  assumes "KeyStorage_Put pair s = (None, s')" and "storage_read_error s = None"
  shows "KeyStorage_GetLastByCn (CN pair) s' = Inr pair"
  using assms
  by (auto simp: KeyStorage_Put_def KeyStorage_GetLastByCn_def split: option.splits)

text \<open>The lifetime of a leaf certificate is a \<^verbatim>\<open>time.Duration\<close>, an int64.\<close>

lemma leaf_lifetime_fits_int64: "(24 * 365 * 99) * Hour < 2 ^ 63"
  by (simp add: Hour_def Minute_def Second_def Nanosecond_def)

lemma usages_client:
  "usages_of (KeyUsageDigitalSignature OR KeyUsageKeyAgreement) =
     [KeyUsageDigitalSignature, KeyUsageKeyAgreement]"
  by code_simp

lemma usages_server:
  "usages_of (KeyUsageDigitalSignature OR KeyUsageKeyAgreement OR KeyUsageKeyEncipherment) =
     [KeyUsageDigitalSignature, KeyUsageKeyEncipherment, KeyUsageKeyAgreement]"
  by code_simp

text \<open>
  C6. The certificate \<open>NewCert\<close> signs encodes the role. For a client the key usage is
  digital signature and key agreement, the extended key usage client authentication, and
  the extension 2.16.840.1.113730.1.1 holds the bit string with the byte \<open>0x80\<close>; for a
  server the key usage has key encipherment as well, the extended key usage is server
  authentication, and the same extension holds the byte \<open>0x40\<close>.
\<close>

theorem NewCert_role_encoding:
  assumes "NewCert c e cn server groups p = (Inr pair, p')"
  shows "\<exists>tml parent pub priv.
           CertPemBytes pair =
             PEM \<lparr>Type = PEMCertificateBlock c, Bytes = DERCertificate tml parent pub priv\<rparr> \<and>
           usages_of (KeyUsage tml) =
             (if server
              then [KeyUsageDigitalSignature, KeyUsageKeyEncipherment, KeyUsageKeyAgreement]
              else [KeyUsageDigitalSignature, KeyUsageKeyAgreement]) \<and>
           ExtKeyUsage tml =
             (if server then [ExtKeyUsageServerAuth] else [ExtKeyUsageClientAuth]) \<and>
           ExtraExtensions tml =
             [\<lparr>Id_oid = [2, 16, 840, 1, 113730, 1, 1], Critical = False,
               Value = [3, 2, 6, if server then 0x40 else 0x80]\<rparr>]"
proof -
  from assms obtain caPair caKey caCert key serial where
    cert: "CertPemBytes pair = PEM
       \<lparr>Type = PEMCertificateBlock c,
        Bytes = DERCertificate
          (signed_tml (Now e 0) ((subjTemplate p)\<lparr>CommonName := cn\<rparr>) serial cn server groups)
          caCert (PublicKey_of key) caKey\<rparr>"
    by (rule NewCert_signed)
  show ?thesis
    unfolding cert
    by (intro exI conjI, rule refl) (simp_all add: usages_client usages_server)
qed

theorem NewCert_role_encoding_witness:
  "\<exists>pair p'.
     NewCert constants0 env0 ''svc-a'' True [''web''] pki_ca = (Inr pair, p') \<and>
     (\<exists>tml parent pub priv.
        CertPemBytes pair =
          PEM \<lparr>Type = ''CERTIFICATE'', Bytes = DERCertificate tml parent pub priv\<rparr> \<and>
        usages_of (KeyUsage tml) =
          [KeyUsageDigitalSignature, KeyUsageKeyEncipherment, KeyUsageKeyAgreement] \<and>
        ExtKeyUsage tml = [ExtKeyUsageServerAuth] \<and>
        ExtraExtensions tml =
          [\<lparr>Id_oid = [2, 16, 840, 1, 113730, 1, 1], Critical = False,
            Value = [3, 2, 6, 0x40]\<rparr>])"
proof -
  obtain pair p' where
    h: "NewCert constants0 env0 ''svc-a'' True [''web''] pki_ca = (Inr pair, p')"
    using NewCert_server_example by blast
  from NewCert_role_encoding [OF h]
  have "\<exists>tml parent pub priv.
        CertPemBytes pair =
          PEM \<lparr>Type = ''CERTIFICATE'', Bytes = DERCertificate tml parent pub priv\<rparr> \<and>
        usages_of (KeyUsage tml) =
          [KeyUsageDigitalSignature, KeyUsageKeyEncipherment, KeyUsageKeyAgreement] \<and>
        ExtKeyUsage tml = [ExtKeyUsageServerAuth] \<and>
        ExtraExtensions tml =
          [\<lparr>Id_oid = [2, 16, 840, 1, 113730, 1, 1], Critical = False,
            Value = [3, 2, 6, 0x40]\<rparr>]"
    by (simp add: constants0_fields)
  with h show ?thesis by blast
qed

text \<open>
  What \<open>Decode\<close> returns for the pair of a successful \<open>NewCert\<close>: the parser accepts the
  certificate when it accepts every group as a name constraint.
\<close>

lemma parseNameConstraints_None:
  "parseNameConstraints domains = None \<longleftrightarrow>
     list_all (\<lambda>domain. dnsName_constraint domain = None) domains"
  by (induction domains) (auto split: option.splits)

lemma Decode_issued:
  assumes "NewCert c e cn server groups p = (Inr pair, p')"
  shows "isl (Decode pair) \<longleftrightarrow> parseNameConstraints groups \<noteq> None"
    and "Decode pair = Inr (key, cert) \<Longrightarrow> ExcludedDNSDomains cert = groups"
proof -
  from assms obtain caPair caKey caCert k serial where
    key: "KeyPemBytes pair = PEM \<lparr>Type = PEMRSAPrivateKeyBlock c, Bytes = DERPrivateKey k\<rparr>"
    and cert: "CertPemBytes pair = PEM
       \<lparr>Type = PEMCertificateBlock c,
        Bytes = DERCertificate
          (signed_tml (Now e 0) ((subjTemplate p)\<lparr>CommonName := cn\<rparr>) serial cn server groups)
          caCert (PublicKey_of k) caKey\<rparr>"
    by (rule NewCert_signed)
  show "isl (Decode pair) \<longleftrightarrow> parseNameConstraints groups \<noteq> None"
    by (auto simp: Decode_def key cert NewCert_tml_def split: option.splits)
  show "Decode pair = Inr (key, cert) \<Longrightarrow> ExcludedDNSDomains cert = groups"
    by (auto simp: Decode_def key cert NewCert_tml_def split: option.splits)
qed

text \<open>
  C7, as the claim states it, fails: the groups are claimed to come back from
  \<open>ExtractGroups\<close> for every list of group tags. With the one group "my group" \<open>NewCert\<close>
  returns a pair, and \<open>Decode\<close> of that pair fails, so that there is no certificate to
  extract the groups from: the groups are stored as name constraints, and the parser
  refuses a name constraint with a space in it.
\<close>

theorem NewCert_group_not_decodable:
  "map_sum id (isl \<circ> Decode)
     (fst (NewCert constants0 env0 ''svc-a'' False [''my group''] pki_ca)) = Inr True"
  by code_simp

text \<open>The same holds for a group with an empty label, and not for a domain name.\<close>

lemma dnsName_constraint_examples:
  "dnsName_constraint ''my group'' \<noteq> None"
  "dnsName_constraint ''web.'' \<noteq> None"
  "dnsName_constraint ''a..b'' \<noteq> None"
  "dnsName_constraint ''ops'' = None"
  "dnsName_constraint ''.example.com'' = None"
  by code_simp+

text \<open>
  C7, amended. When \<open>NewCert\<close> succeeds and every group is a name constraint that the
  parser accepts (an IA5 string that is, after one leading dot, empty or a sequence of
  non-empty labels of characters 33 to 126 between dots), the certificate of the returned
  pair decodes. Whenever it decodes, \<open>ExtractGroups\<close> returns the groups given to
  \<open>NewCert\<close>, in the same order, and fails with the error "No groups in certificate" when
  there are none.
\<close>

theorem ExtractGroups_after_NewCert:
  assumes "NewCert c e cn server groups p = (Inr pair, p')"
  shows "(list_all (\<lambda>tag. dnsName_constraint tag = None) groups \<longrightarrow>
            (\<exists>key cert. Decode pair = Inr (key, cert))) \<and>
         (\<forall>key cert. Decode pair = Inr (key, cert) \<longrightarrow>
            ExtractGroups p' cert =
              (if groups = [] then Inl (New ''No groups in certificate'') else Inr groups))"
proof (intro conjI impI allI)
  assume "list_all (\<lambda>tag. dnsName_constraint tag = None) groups"
  then have "\<not> isl (Decode pair)"
    by (simp add: Decode_issued(1) [OF assms] parseNameConstraints_None)
  then show "\<exists>key cert. Decode pair = Inr (key, cert)"
    by (cases "Decode pair") auto
next
  fix key cert
  assume "Decode pair = Inr (key, cert)"
  then have "ExcludedDNSDomains cert = groups"
    by (rule Decode_issued(2) [OF assms])
  then show "ExtractGroups p' cert =
      (if groups = [] then Inl (New ''No groups in certificate'') else Inr groups)"
    by (simp add: ExtractGroups_def)
qed

theorem ExtractGroups_after_NewCert_witness:
  "(\<exists>pair p' key cert.
      NewCert constants0 env0 ''svc-a'' True [''web''] pki_ca = (Inr pair, p') \<and>
      Decode pair = Inr (key, cert) \<and> ExtractGroups p' cert = Inr [''web'']) \<and>
   (\<exists>pair p' key cert.
      NewCert constants0 env0 ''svc-b'' False [] pki_ca = (Inr pair, p') \<and>
      Decode pair = Inr (key, cert) \<and>
      ExtractGroups p' cert = Inl (New ''No groups in certificate''))"
proof -
  obtain pair p' where
    h: "NewCert constants0 env0 ''svc-a'' True [''web''] pki_ca = (Inr pair, p')"
    using NewCert_server_example by blast
  obtain pair2 p2' where
    h2: "NewCert constants0 env0 ''svc-b'' False [] pki_ca = (Inr pair2, p2')"
    using NewCert_client_example by blast
  have web: "list_all (\<lambda>tag. dnsName_constraint tag = None) [''web'']"
    by code_simp
  have none: "list_all (\<lambda>tag. dnsName_constraint tag = None) []"
    by simp
  note t = ExtractGroups_after_NewCert [OF h]
  note t2 = ExtractGroups_after_NewCert [OF h2]
  from t [THEN conjunct1, rule_format, OF web] obtain key cert where
    d: "Decode pair = Inr (key, cert)" by blast
  from t2 [THEN conjunct1, rule_format, OF none] obtain key2 cert2 where
    d2: "Decode pair2 = Inr (key2, cert2)" by blast
  have "ExtractGroups p' cert = Inr [''web'']"
    using t [THEN conjunct2, rule_format, OF d] by simp
  moreover have "ExtractGroups p2' cert2 = Inl (New ''No groups in certificate'')"
    using t2 [THEN conjunct2, rule_format, OF d2] by simp
  ultimately show ?thesis using h h2 d d2 by blast
qed

text \<open>
  C9. The certificate \<open>NewCa\<close> signs and the one \<open>NewCert\<close> signs are valid from ten
  minutes before the time of the call, and the one of \<open>NewCert\<close> until 99 years after it,
  a year counted as 365 days of 24 hours. Times are in nanoseconds.
\<close>

theorem validity_backdated:
  "(NewCa c e p = (Inr pair, p') \<longrightarrow>
      (\<exists>template parent pub priv.
         CertPemBytes pair =
           PEM \<lparr>Type = PEMCertificateBlock c,
                Bytes = DERCertificate template parent pub priv\<rparr> \<and>
         NotBefore template = Now e 0 - 10 * (60 * 1000000000))) \<and>
   (NewCert c e cn server groups q = (Inr leaf, q') \<longrightarrow>
      (\<exists>tml parent pub priv.
         CertPemBytes leaf =
           PEM \<lparr>Type = PEMCertificateBlock c, Bytes = DERCertificate tml parent pub priv\<rparr> \<and>
         NotBefore tml = Now e 0 - 10 * (60 * 1000000000) \<and>
         NotAfter tml = Now e 0 + 99 * (365 * (24 * (60 * (60 * 1000000000))))))"
proof (intro conjI impI)
  assume "NewCa c e p = (Inr pair, p')"
  then obtain key serial where
    "CertPemBytes pair = PEM
       \<lparr>Type = PEMCertificateBlock c,
        Bytes = DERCertificate
          (NewCa_template c serial ((subjTemplate p)\<lparr>CommonName := ''ca''\<rparr>) (Now e 0))
          (NewCa_template c serial ((subjTemplate p)\<lparr>CommonName := ''ca''\<rparr>) (Now e 0))
          (PublicKey_of key) key\<rparr>"
    by (rule NewCa_signed)
  then show "\<exists>template parent pub priv.
         CertPemBytes pair =
           PEM \<lparr>Type = PEMCertificateBlock c,
                Bytes = DERCertificate template parent pub priv\<rparr> \<and>
         NotBefore template = Now e 0 - 10 * (60 * 1000000000)"
    by (simp add: NewCa_template_def UTC_def Add_def Minute_def Second_def Nanosecond_def)
next
  assume "NewCert c e cn server groups q = (Inr leaf, q')"
  then obtain caPair caKey caCert key serial where
    cert: "CertPemBytes leaf = PEM
       \<lparr>Type = PEMCertificateBlock c,
        Bytes = DERCertificate
          (signed_tml (Now e 0) ((subjTemplate q)\<lparr>CommonName := cn\<rparr>) serial cn server groups)
          caCert (PublicKey_of key) caKey\<rparr>"
    by (rule NewCert_signed)
  show "\<exists>tml parent pub priv.
         CertPemBytes leaf =
           PEM \<lparr>Type = PEMCertificateBlock c, Bytes = DERCertificate tml parent pub priv\<rparr> \<and>
         NotBefore tml = Now e 0 - 10 * (60 * 1000000000) \<and>
         NotAfter tml = Now e 0 + 99 * (365 * (24 * (60 * (60 * 1000000000))))"
    unfolding cert
    by (simp add: NewCert_tml_def UTC_def Add_def Hour_def Minute_def Second_def Nanosecond_def)
qed

theorem validity_backdated_witness:
  "\<exists>pair p' leaf q'.
     NewCa constants0 env0 pki_empty = (Inr pair, p') \<and>
     NewCert constants0 env0 ''svc-a'' True [''web''] pki_ca = (Inr leaf, q') \<and>
     (\<exists>template parent pub priv.
        CertPemBytes pair =
          PEM \<lparr>Type = ''CERTIFICATE'', Bytes = DERCertificate template parent pub priv\<rparr> \<and>
        NotBefore template = 1699999400000000000) \<and>
     (\<exists>tml parent pub priv.
        CertPemBytes leaf =
          PEM \<lparr>Type = ''CERTIFICATE'', Bytes = DERCertificate tml parent pub priv\<rparr> \<and>
        NotBefore tml = 1699999400000000000 \<and>
        NotAfter tml = 1700000000000000000 + 3122064000000000000)"
proof -
  obtain pair p' where h: "NewCa constants0 env0 pki_empty = (Inr pair, p')"
    using NewCa_example by blast
  obtain leaf q' where
    h2: "NewCert constants0 env0 ''svc-a'' True [''web''] pki_ca = (Inr leaf, q')"
    using NewCert_server_example by blast
  from validity_backdated [THEN conjunct1, rule_format, OF h]
  have "\<exists>template parent pub priv.
        CertPemBytes pair =
          PEM \<lparr>Type = ''CERTIFICATE'', Bytes = DERCertificate template parent pub priv\<rparr> \<and>
        NotBefore template = 1699999400000000000"
    by (simp add: constants0_fields Now_env0)
  moreover from validity_backdated [THEN conjunct2, rule_format, OF h2]
  have "\<exists>tml parent pub priv.
        CertPemBytes leaf =
          PEM \<lparr>Type = ''CERTIFICATE'', Bytes = DERCertificate tml parent pub priv\<rparr> \<and>
        NotBefore tml = 1699999400000000000 \<and>
        NotAfter tml = 1700000000000000000 + 3122064000000000000"
    by (simp add: constants0_fields Now_env0)
  ultimately show ?thesis using h h2 by blast
qed

text \<open>
  C10. The certificate \<open>NewCert\<close> signs has valid basic constraints and is no authority,
  whatever the name, the role and the groups; the one \<open>NewCa\<close> signs is an authority.
\<close>

theorem leaf_is_no_authority:
  "(NewCert c e cn server groups p = (Inr leaf, p') \<longrightarrow>
      (\<exists>tml parent pub priv.
         CertPemBytes leaf =
           PEM \<lparr>Type = PEMCertificateBlock c, Bytes = DERCertificate tml parent pub priv\<rparr> \<and>
         BasicConstraintsValid tml \<and> IsCA tml = False)) \<and>
   (NewCa c e q = (Inr pair, q') \<longrightarrow>
      (\<exists>template parent pub priv.
         CertPemBytes pair =
           PEM \<lparr>Type = PEMCertificateBlock c,
                Bytes = DERCertificate template parent pub priv\<rparr> \<and>
         BasicConstraintsValid template \<and> IsCA template = True))"
proof (intro conjI impI)
  assume "NewCa c e q = (Inr pair, q')"
  then obtain key serial where
    "CertPemBytes pair = PEM
       \<lparr>Type = PEMCertificateBlock c,
        Bytes = DERCertificate
          (NewCa_template c serial ((subjTemplate q)\<lparr>CommonName := ''ca''\<rparr>) (Now e 0))
          (NewCa_template c serial ((subjTemplate q)\<lparr>CommonName := ''ca''\<rparr>) (Now e 0))
          (PublicKey_of key) key\<rparr>"
    by (rule NewCa_signed)
  then show "\<exists>template parent pub priv.
         CertPemBytes pair =
           PEM \<lparr>Type = PEMCertificateBlock c,
                Bytes = DERCertificate template parent pub priv\<rparr> \<and>
         BasicConstraintsValid template \<and> IsCA template = True"
    by (simp add: NewCa_template_def)
next
  assume "NewCert c e cn server groups p = (Inr leaf, p')"
  then obtain caPair caKey caCert key serial where
    cert: "CertPemBytes leaf = PEM
       \<lparr>Type = PEMCertificateBlock c,
        Bytes = DERCertificate
          (signed_tml (Now e 0) ((subjTemplate p)\<lparr>CommonName := cn\<rparr>) serial cn server groups)
          caCert (PublicKey_of key) caKey\<rparr>"
    by (rule NewCert_signed)
  show "\<exists>tml parent pub priv.
         CertPemBytes leaf =
           PEM \<lparr>Type = PEMCertificateBlock c, Bytes = DERCertificate tml parent pub priv\<rparr> \<and>
         BasicConstraintsValid tml \<and> IsCA tml = False"
    unfolding cert by (simp add: NewCert_tml_def)
qed

theorem leaf_is_no_authority_witness:
  "\<exists>pair p' leaf q'.
     NewCa constants0 env0 pki_empty = (Inr pair, p') \<and>
     NewCert constants0 env0 ''svc-b'' False [] pki_ca = (Inr leaf, q') \<and>
     (\<exists>template parent pub priv.
        CertPemBytes pair =
          PEM \<lparr>Type = ''CERTIFICATE'', Bytes = DERCertificate template parent pub priv\<rparr> \<and>
        BasicConstraintsValid template \<and> IsCA template = True) \<and>
     (\<exists>tml parent pub priv.
        CertPemBytes leaf =
          PEM \<lparr>Type = ''CERTIFICATE'', Bytes = DERCertificate tml parent pub priv\<rparr> \<and>
        BasicConstraintsValid tml \<and> IsCA tml = False)"
proof -
  obtain pair p' where h: "NewCa constants0 env0 pki_empty = (Inr pair, p')"
    using NewCa_example by blast
  obtain leaf q' where
    h2: "NewCert constants0 env0 ''svc-b'' False [] pki_ca = (Inr leaf, q')"
    using NewCert_client_example by blast
  from leaf_is_no_authority [THEN conjunct2, rule_format, OF h]
  have "\<exists>template parent pub priv.
        CertPemBytes pair =
          PEM \<lparr>Type = ''CERTIFICATE'', Bytes = DERCertificate template parent pub priv\<rparr> \<and>
        BasicConstraintsValid template \<and> IsCA template = True"
    by (simp add: constants0_fields)
  moreover from leaf_is_no_authority [THEN conjunct1, rule_format, OF h2]
  have "\<exists>tml parent pub priv.
        CertPemBytes leaf =
          PEM \<lparr>Type = ''CERTIFICATE'', Bytes = DERCertificate tml parent pub priv\<rparr> \<and>
        BasicConstraintsValid tml \<and> IsCA tml = False"
    by (simp add: constants0_fields)
  ultimately show ?thesis using h h2 by blast
qed

section \<open>Which authority signs\<close>

text \<open>
  C5. \<open>NewCert\<close> signs with the pair that \<open>GetLastByCn "ca"\<close> returns, the authority
  stored most recently. \<open>RevokeOne\<close> signs the CRL with a pair among those that
  \<open>GetByCN "ca"\<close> returns whose serial none of them exceeds. Either holds whenever the
  call succeeds, whatever the other rule selects.
\<close>

theorem authority_selection:
  "(NewCert c e cn server groups p = (Inr pair, p') \<longrightarrow>
      (\<exists>caPair caKey caCert tml pub.
         KeyStorage_GetLastByCn ''ca'' (Storage p) = Inr caPair \<and>
         Decode caPair = Inr (caKey, caCert) \<and>
         CertPemBytes pair =
           PEM \<lparr>Type = PEMCertificateBlock c,
                Bytes = DERCertificate tml caCert pub caKey\<rparr>)) \<and>
   (RevokeOne c e serial q = (Inr None, q') \<longrightarrow>
      (\<exists>stored caPair caKey caCert cl.
         KeyStorage_GetByCN ''ca'' (Storage q) = Inr stored \<and>
         caPair \<in> set stored \<and>
         list_all (\<lambda>other. Serial other \<le> Serial caPair) stored \<and>
         Decode caPair = Inr (caKey, caCert) \<and>
         blob (crlHolder q') =
           Some (PEM \<lparr>Type = PEMx509CRLBlock c,
                      Bytes = DERCertificateList cl caCert caKey\<rparr>)))"
proof (intro conjI impI)
  assume "NewCert c e cn server groups p = (Inr pair, p')"
  then obtain caPair caKey caCert key serial where
    "GetLastCA p = Inr caPair" "Decode caPair = Inr (caKey, caCert)"
    "CertPemBytes pair = PEM
       \<lparr>Type = PEMCertificateBlock c,
        Bytes = DERCertificate
          (signed_tml (Now e 0) ((subjTemplate p)\<lparr>CommonName := cn\<rparr>) serial cn server groups)
          caCert (PublicKey_of key) caKey\<rparr>"
    by (rule NewCert_signed)
  then show "\<exists>caPair caKey caCert tml pub.
         KeyStorage_GetLastByCn ''ca'' (Storage p) = Inr caPair \<and>
         Decode caPair = Inr (caKey, caCert) \<and>
         CertPemBytes pair =
           PEM \<lparr>Type = PEMCertificateBlock c,
                Bytes = DERCertificate tml caCert pub caKey\<rparr>"
    unfolding GetLastCA_def by blast
next
  assume "RevokeOne c e serial q = (Inr None, q')"
  then obtain stored caPair rest caKey caCert where
    h: "KeyStorage_GetByCN ''ca'' (Storage q) = Inr stored"
    "sort_Slice (pdqsort_func e) (\<lambda>pi pj. Cmp (Serial pi) (Serial pj) = 1) stored
       = caPair # rest"
    "Decode caPair = Inr (caKey, caCert)"
    "blob (crlHolder q') = Some (PEM
        \<lparr>Type = PEMx509CRLBlock c,
         Bytes = DERCertificateList
           \<lparr>TBSCertList =
              \<lparr>CRLIssuer = Subject caCert, ThisUpdate = Now e 1,
               NextUpdate = Now e 2 + 99 * 365 * 24 * Hour,
               RevokedCertificates =
                 removeDups
                   ((case GetCRL q of
                       Inr oldList \<Rightarrow> RevokedCertificates (TBSCertList oldList)
                     | Inl err \<Rightarrow> [])
                    @ [\<lparr>RevokedSerialNumber = serial, RevocationTime = Now e 0\<rparr>])\<rparr>\<rparr>
           caCert caKey\<rparr>)"
    by (rule RevokeOne_stored)
  have "caPair \<in> set stored" "list_all (\<lambda>other. Serial other \<le> Serial caPair) stored"
    using sort_Slice_head [OF h(2)] by (simp_all add: list_all_iff)
  then show "\<exists>stored caPair caKey caCert cl.
         KeyStorage_GetByCN ''ca'' (Storage q) = Inr stored \<and>
         caPair \<in> set stored \<and>
         list_all (\<lambda>other. Serial other \<le> Serial caPair) stored \<and>
         Decode caPair = Inr (caKey, caCert) \<and>
         blob (crlHolder q') =
           Some (PEM \<lparr>Type = PEMx509CRLBlock c,
                      Bytes = DERCertificateList cl caCert caKey\<rparr>)"
    using h(1) h(3) h(4) by blast
qed

theorem authority_selection_witness:
  "\<exists>pair p' q'.
     NewCert constants0 env0 ''svc-a'' False [] pki_two_authorities = (Inr pair, p') \<and>
     RevokeOne constants0 env0 9 pki_two_authorities = (Inr None, q') \<and>
     (\<exists>caPair caKey caCert tml pub.
         KeyStorage_GetLastByCn ''ca'' (Storage pki_two_authorities) = Inr caPair \<and>
         Decode caPair = Inr (caKey, caCert) \<and>
         CertPemBytes pair =
           PEM \<lparr>Type = ''CERTIFICATE'', Bytes = DERCertificate tml caCert pub caKey\<rparr>) \<and>
     (\<exists>stored caPair caKey caCert cl.
         KeyStorage_GetByCN ''ca'' (Storage pki_two_authorities) = Inr stored \<and>
         caPair \<in> set stored \<and>
         list_all (\<lambda>other. Serial other \<le> Serial caPair) stored \<and>
         Decode caPair = Inr (caKey, caCert) \<and>
         blob (crlHolder q') =
           Some (PEM \<lparr>Type = ''X509 CRL'', Bytes = DERCertificateList cl caCert caKey\<rparr>))"
proof -
  have "\<not> isl (fst (NewCert constants0 env0 ''svc-a'' False [] pki_two_authorities))"
    by code_simp
  then obtain pair p' where
    h: "NewCert constants0 env0 ''svc-a'' False [] pki_two_authorities = (Inr pair, p')"
    using success_cases by blast
  have "fst (RevokeOne constants0 env0 9 pki_two_authorities) = Inr None"
    by code_simp
  then obtain q' where h2: "RevokeOne constants0 env0 9 pki_two_authorities = (Inr None, q')"
    by (cases "RevokeOne constants0 env0 9 pki_two_authorities") auto
  from authority_selection [THEN conjunct1, rule_format, OF h]
  have "\<exists>caPair caKey caCert tml pub.
         KeyStorage_GetLastByCn ''ca'' (Storage pki_two_authorities) = Inr caPair \<and>
         Decode caPair = Inr (caKey, caCert) \<and>
         CertPemBytes pair =
           PEM \<lparr>Type = ''CERTIFICATE'', Bytes = DERCertificate tml caCert pub caKey\<rparr>"
    by (simp add: constants0_fields)
  moreover from authority_selection [THEN conjunct2, rule_format, OF h2]
  have "\<exists>stored caPair caKey caCert cl.
         KeyStorage_GetByCN ''ca'' (Storage pki_two_authorities) = Inr stored \<and>
         caPair \<in> set stored \<and>
         list_all (\<lambda>other. Serial other \<le> Serial caPair) stored \<and>
         Decode caPair = Inr (caKey, caCert) \<and>
         blob (crlHolder q') =
           Some (PEM \<lparr>Type = ''X509 CRL'', Bytes = DERCertificateList cl caCert caKey\<rparr>)"
    by (simp add: constants0_fields)
  ultimately show ?thesis using h h2 by blast
qed

text \<open>
  The two rules can select different authorities: with the authority of serial 5 stored
  before the one of serial 3, \<open>NewCert\<close> signs with the key of the latter and \<open>RevokeOne\<close>
  with the key of the former.
\<close>

lemma selection_rules_disagree:
  "map_sum id Serial (KeyStorage_GetLastByCn ''ca'' (Storage pki_two_authorities)) = Inr 3 \<and>
   map_sum id (\<lambda>pair. signing_key (CertPemBytes pair))
     (fst (NewCert constants0 env0 ''svc-a'' False [] pki_two_authorities))
     = Inr (Some (RSAPrivateKey 33)) \<and>
   fst (RevokeOne constants0 env0 9 pki_two_authorities) = Inr None \<and>
   map_option signing_key
     (blob (crlHolder (snd (RevokeOne constants0 env0 9 pki_two_authorities))))
     = Some (Some (RSAPrivateKey 55))"
  by code_simp

section \<open>Loading the CRL\<close>

lemma removeDups_single: "removeDups [entry] = [entry]"
  by (simp add: removeDups_def encountered_at_def)

lemma RevokeOne_outcome_any_load_failure:
  assumes "GetCRL q = Inl err" and "GetCRL r = Inl err'"
    and "Storage r = Storage q"
    and "crl_write_error (crlHolder r) = crl_write_error (crlHolder q)"
  shows "fst (RevokeOne c e serial q) = fst (RevokeOne c e serial r)"
  using assms
  unfolding RevokeOne_def Let_def CRLHolder_Put_def
  by (auto split: sum.splits option.splits prod.splits list.splits)

text \<open>
  C8, as the claim states it, fails: \<open>RevokeOne\<close> is claimed to return an error when
  loading the current CRL fails for another reason than that none exists. Here the holder
  keeps a CRL with serial 7 and fails to read it; \<open>RevokeOne 1\<close> returns nil and replaces
  the CRL by one that holds serial 1 only.
\<close>

theorem RevokeOne_swallows_read_failure:
  "GetCRL pki_unreadable = Inl (Fault ''read crl: input/output error'') \<and>
   map_option (map RevokedSerialNumber) (stored_revoked pki_unreadable) = Some [7] \<and>
   fst (RevokeOne constants0 env0 1 pki_unreadable) = Inr None \<and>
   map_option (map RevokedSerialNumber)
     (stored_revoked (snd (RevokeOne constants0 env0 1 pki_unreadable))) = Some [1]"
  by code_simp

text \<open>
  C8, amended. \<open>GetCRL\<close> returns \<open>NotFound\<close> when the holder keeps no CRL. \<open>RevokeOne\<close>
  starts from the empty list whenever \<open>GetCRL\<close> fails, with \<open>NotFound\<close> or with any other
  error: it returns what it returns when no CRL exists, and when it succeeds the CRL it
  stores holds the new entry alone.
\<close>

theorem RevokeOne_load_failure_starts_empty:
  "(blob (crlHolder p) = None \<and> crl_read_error (crlHolder p) = None \<longrightarrow>
      GetCRL p = Inl NotFound) \<and>
   (GetCRL q = Inl err \<longrightarrow>
      fst (RevokeOne c e serial q) =
        fst (RevokeOne c e serial
               (q\<lparr>crlHolder := (crlHolder q)\<lparr>blob := None, crl_read_error := None\<rparr>\<rparr>)) \<and>
      (RevokeOne c e serial q = (Inr None, q') \<longrightarrow>
         stored_revoked q' =
           Some [\<lparr>RevokedSerialNumber = serial, RevocationTime = Now e 0\<rparr>]))"
proof (intro conjI impI)
  assume "blob (crlHolder p) = None \<and> crl_read_error (crlHolder p) = None"
  then show "GetCRL p = Inl NotFound"
    by (simp add: GetCRL_def CRLHolder_Get_def)
next
  assume load: "GetCRL q = Inl err"
  have "GetCRL (q\<lparr>crlHolder := (crlHolder q)\<lparr>blob := None, crl_read_error := None\<rparr>\<rparr>)
          = Inl NotFound"
    by (simp add: GetCRL_def CRLHolder_Get_def)
  then show "fst (RevokeOne c e serial q) =
        fst (RevokeOne c e serial
               (q\<lparr>crlHolder := (crlHolder q)\<lparr>blob := None, crl_read_error := None\<rparr>\<rparr>))"
    using load by (intro RevokeOne_outcome_any_load_failure) simp_all
next
  assume load: "GetCRL q = Inl err" and ok: "RevokeOne c e serial q = (Inr None, q')"
  from ok obtain stored caPair rest caKey caCert where
    "blob (crlHolder q') = Some (PEM
        \<lparr>Type = PEMx509CRLBlock c,
         Bytes = DERCertificateList
           \<lparr>TBSCertList =
              \<lparr>CRLIssuer = Subject caCert, ThisUpdate = Now e 1,
               NextUpdate = Now e 2 + 99 * 365 * 24 * Hour,
               RevokedCertificates =
                 removeDups
                   ((case GetCRL q of
                       Inr oldList \<Rightarrow> RevokedCertificates (TBSCertList oldList)
                     | Inl err \<Rightarrow> [])
                    @ [\<lparr>RevokedSerialNumber = serial, RevocationTime = Now e 0\<rparr>])\<rparr>\<rparr>
           caCert caKey\<rparr>)"
    by (rule RevokeOne_stored)
  then show "stored_revoked q' =
           Some [\<lparr>RevokedSerialNumber = serial, RevocationTime = Now e 0\<rparr>]"
    by (simp add: load stored_revoked_def removeDups_single)
qed

theorem RevokeOne_load_failure_starts_empty_witness:
  "GetCRL pki_ca = Inl NotFound \<and>
   GetCRL pki_unreadable = Inl (Fault ''read crl: input/output error'') \<and>
   fst (RevokeOne constants0 env0 1 pki_unreadable) =
     fst (RevokeOne constants0 env0 1
            (pki_unreadable\<lparr>crlHolder :=
               (crlHolder pki_unreadable)\<lparr>blob := None, crl_read_error := None\<rparr>\<rparr>)) \<and>
   (\<exists>q'. RevokeOne constants0 env0 1 pki_unreadable = (Inr None, q') \<and>
      stored_revoked q' =
        Some [\<lparr>RevokedSerialNumber = 1, RevocationTime = 1700000000000000000\<rparr>])"
proof -
  have a: "blob (crlHolder pki_ca) = None \<and> crl_read_error (crlHolder pki_ca) = None"
    by code_simp
  have b: "GetCRL pki_unreadable = Inl (Fault ''read crl: input/output error'')"
    by code_simp
  have "fst (RevokeOne constants0 env0 1 pki_unreadable) = Inr None"
    by code_simp
  then obtain q' where h: "RevokeOne constants0 env0 1 pki_unreadable = (Inr None, q')"
    by (cases "RevokeOne constants0 env0 1 pki_unreadable") auto
  note t = RevokeOne_load_failure_starts_empty [THEN conjunct2, rule_format, OF b,
    of constants0 env0 1 q']
  have "GetCRL pki_ca = Inl NotFound"
    using RevokeOne_load_failure_starts_empty [THEN conjunct1, rule_format, OF a] .
  moreover have "stored_revoked q' =
        Some [\<lparr>RevokedSerialNumber = 1, RevocationTime = 1700000000000000000\<rparr>]"
    using t [THEN conjunct2, rule_format, OF h] by (simp add: Now_env0)
  ultimately show ?thesis using b h t [THEN conjunct1] by blast
qed

end
